theory Spec2Isabelle
  imports Main "HOL-Library.Word"
begin

unbundle bit_operations_syntax

section \<open>DID-Exchange protocol states (package didexchange)\<close>

text \<open>
  A shallow embedding of the state machine of the DID-Exchange protocol and of the
  handlers its states call.  Go values are modelled as follows.
  \<^item> \<open>string\<close> and \<open>[]byte\<close>: Go strings are byte sequences, modelled as \<open>string\<close>;
    byte slices are lists of 8-bit words.
  \<^item> A Go \<open>error\<close> is a value of the datatype \<open>error\<close>; \<open>nil\<close> is \<open>None\<close>.
  \<^item> A pointer that the code tests against \<open>nil\<close> or dereferences is an \<open>option\<close>;
    dereferencing \<open>None\<close> is the run-time panic \<open>NilDereference\<close>, indexing an empty
    slice with \<open>[0]\<close> is \<open>IndexOutOfRange\<close>.
  \<^item> A function returning \<open>(value, error)\<close> returns \<open>failure + value\<close>.
\<close>

subsection \<open>Errors and panics\<close>

type_synonym byte = "8 word"

text \<open>
  An error value handed back by a collaborator outside this package.  The code observes
  two things of it: whether \<open>errors.Is(err, storage.ErrDataNotFound)\<close> holds, and its
  message.  Such a value is never the package-private \<open>errVerKeyNotFound\<close>.
\<close>

datatype ext_error = ExtError (is_ErrDataNotFound: bool) (ext_message: string)

text \<open>
  Errors of the package: the sentinel \<open>errVerKeyNotFound\<close>, \<open>errors.New\<close> and
  \<open>fmt.Errorf\<close> without \<open>%w\<close> (\<open>New\<close>, holding the formatted text), \<open>fmt.Errorf\<close> with a
  trailing \<open>%w\<close> (\<open>Errorf\<close>, holding the formatted text before the wrapped error), and a
  collaborator's error passed on as it is.
\<close>

datatype error =
    errVerKeyNotFound
  | New string
  | Errorf string error
  | External ext_error

fun Error_msg :: "error \<Rightarrow> string" where
  "Error_msg errVerKeyNotFound = ''verkey not found''"
| "Error_msg (New s) = s"
| "Error_msg (Errorf p e) = p @ Error_msg e"
| "Error_msg (External e) = ext_message e"

text \<open>\<open>errors.Is(err, errVerKeyNotFound)\<close>: the sentinel is somewhere in the chain.\<close>

fun Is_errVerKeyNotFound :: "error \<Rightarrow> bool" where
  "Is_errVerKeyNotFound errVerKeyNotFound = True"
| "Is_errVerKeyNotFound (New s) = False"
| "Is_errVerKeyNotFound (Errorf p e) = Is_errVerKeyNotFound e"
| "Is_errVerKeyNotFound (External e) = False"

datatype panic = NilDereference | IndexOutOfRange | SliceBoundsOutOfRange

datatype failure = Err error | Panic panic

subsection \<open>States\<close>

datatype state = NoOp | Null | Invited | Requested | Responded | Completed | Abandoned

definition stateNameNoop :: string where "stateNameNoop = ''noop''"
definition stateNameNull :: string where "stateNameNull = ''null''"
definition StateIDInvited :: string where "StateIDInvited = ''invited''"
definition StateIDRequested :: string where "StateIDRequested = ''requested''"
definition StateIDResponded :: string where "StateIDResponded = ''responded''"
definition StateIDCompleted :: string where "StateIDCompleted = ''completed''"
definition StateIDAbandoned :: string where "StateIDAbandoned = ''abandoned''"

lemmas state_names =
  stateNameNoop_def stateNameNull_def StateIDInvited_def StateIDRequested_def
  StateIDResponded_def StateIDCompleted_def StateIDAbandoned_def

fun Name :: "state \<Rightarrow> string" where
  "Name NoOp = stateNameNoop"
| "Name Null = stateNameNull"
| "Name Invited = StateIDInvited"
| "Name Requested = StateIDRequested"
| "Name Responded = StateIDResponded"
| "Name Completed = StateIDCompleted"
| "Name Abandoned = StateIDAbandoned"

fun CanTransitionTo :: "state \<Rightarrow> state \<Rightarrow> bool" where
  "CanTransitionTo NoOp next = False"
| "CanTransitionTo Null next = (StateIDInvited = Name next \<or> StateIDRequested = Name next)"
| "CanTransitionTo Invited next = (StateIDRequested = Name next)"
| "CanTransitionTo Requested next = (StateIDResponded = Name next)"
| "CanTransitionTo Responded next = (StateIDCompleted = Name next)"
| "CanTransitionTo Completed next = False"
| "CanTransitionTo Abandoned next = False"

definition stateFromName :: "string \<Rightarrow> error + state" where
  "stateFromName name =
     (if name = stateNameNoop then Inr NoOp
      else if name = stateNameNull then Inr Null
      else if name = StateIDInvited then Inr Invited
      else if name = StateIDRequested then Inr Requested
      else if name = StateIDResponded then Inr Responded
      else if name = StateIDCompleted then Inr Completed
      else if name = StateIDAbandoned then Inr Abandoned
      else Inl (New (''invalid state name '' @ name)))"

section \<open>Data model\<close>

text \<open>
  Modelled from the spec: the message, record and document types are declared outside the
  source files at hand (the package's models, and the packages connection, did, decorator
  and service).  Each record below holds the fields of the Go struct that the code of
  the source reads or writes; a field is named by a short prefix and its Go name.
\<close>

record Service =
  svc_RecipientKeys :: "string list"
  svc_RoutingKeys :: "string list"
  svc_ServiceEndpoint :: string
  svc_Accept :: "string list"

definition Service_zero :: Service where
  "Service_zero =
     \<lparr>svc_RecipientKeys = [], svc_RoutingKeys = [], svc_ServiceEndpoint = [], svc_Accept = []\<rparr>"

record VerificationMethod =
  vm_ID :: string
  vm_Type :: string
  vm_Value :: "byte list"

text \<open>\<open>did.NewReferencedVerification(&vm, did.Authentication)\<close>.\<close>

datatype Verification = ReferencedAuthentication VerificationMethod

record Doc =
  doc_ID :: string
  doc_Service :: "Service list"
  doc_VerificationMethod :: "VerificationMethod list"
  doc_Authentication :: "Verification list"

definition Doc_zero :: Doc where
  "Doc_zero =
     \<lparr>doc_ID = [], doc_Service = [], doc_VerificationMethod = [], doc_Authentication = []\<rparr>"

record Connection =
  conn_DID :: string
  conn_DIDDoc :: "Doc option"

record ConnectionSignature =
  sig_Type :: string
  sig_SignedData :: string
  sig_SignVerKey :: string
  sig_Signature :: string

record Invitation =
  inv_ID :: string
  inv_DID :: string
  inv_RecipientKeys :: "string list"
  inv_ServiceEndpoint :: string
  inv_RoutingKeys :: "string list"

definition Invitation_zero :: Invitation where
  "Invitation_zero =
     \<lparr>inv_ID = [], inv_DID = [], inv_RecipientKeys = [], inv_ServiceEndpoint = [],
      inv_RoutingKeys = []\<rparr>"

text \<open>
  The target of an out-of-band invitation is an \<open>interface{}\<close>: a DID string, a service
  block, a generic map, or anything else (held by its \<open>%+v\<close> rendering).
\<close>

typedecl JsonObject

datatype Target =
    TargetString string
  | TargetService Service
  | TargetMap JsonObject
  | TargetOther string

record OOBInvitation =
  oob_Type :: string
  oob_MyLabel :: string
  oob_Target :: Target
  oob_MediaTypeProfiles :: "string list"

record Thread =
  thr_ID :: string
  thr_PID :: string

record AttachmentData =
  ad_Base64 :: string
  ad_JWS :: "byte list"

record Attachment =
  att_MimeType :: string
  att_Data :: AttachmentData

record Request =
  req_Type :: string
  req_ID :: string
  req_Label :: string
  req_Connection :: "Connection option"
  req_Thread :: "Thread option"
  req_DocAttach :: "Attachment option"

record Response =
  resp_Type :: string
  resp_ID :: string
  resp_Thread :: "Thread option"
  resp_ConnectionSignature :: "ConnectionSignature option"
  resp_DID :: string
  resp_DocAttach :: "Attachment option"

record Ack =
  ack_Type :: string
  ack_ID :: string
  ack_Status :: string
  ack_Thread :: "Thread option"

text \<open>The connection record (\<open>connectionstore.Record\<close>).\<close>

record Record =
  rec_ThreadID :: string
  rec_ParentThreadID :: string
  rec_MyDID :: string
  rec_TheirDID :: string
  rec_TheirLabel :: string
  rec_RecipientKeys :: "string list"
  rec_MediaTypeProfiles :: "string list"
  rec_Implicit :: bool

definition Record_zero :: Record where
  "Record_zero =
     \<lparr>rec_ThreadID = [], rec_ParentThreadID = [], rec_MyDID = [], rec_TheirDID = [],
      rec_TheirLabel = [], rec_RecipientKeys = [], rec_MediaTypeProfiles = [],
      rec_Implicit = False\<rparr>"

record options =
  opt_publicDID :: string
  opt_routerConnections :: "string list"
  opt_label :: string

record Destination =
  dest_RecipientKeys :: "string list"
  dest_ServiceEndpoint :: string
  dest_RoutingKeys :: "string list"
  dest_MediaTypeProfiles :: "string list"

text \<open>
  The inbound message of the state machine: its type, the results of decoding its body
  into each of the message structs (\<open>msg.Decode\<close>), the connection record it carries
  (a pointer, possibly \<open>nil\<close>) and the options.
\<close>

record stateMachineMsg =
  msg_Type :: string
  msg_Decode_Invitation :: "ext_error + Invitation"
  msg_Decode_OOBInvitation :: "ext_error + OOBInvitation"
  msg_Decode_Request :: "ext_error + Request"
  msg_Decode_Response :: "ext_error + Response"
  msg_Decode_Complete :: "ext_error option"
  msg_connRecord :: "Record option"
  msg_options :: "options option"

text \<open>
  The deferred network call a state returns (\<open>type stateAction func() error\<close>).  The
  source builds two kinds of closure: \<open>func() error { return nil }\<close> and a closure that
  makes one call of \<open>ctx.outboundDispatcher.Send\<close>.  A \<open>nil\<close> action is \<open>None\<close>.
\<close>

datatype didcomm_msg = RequestMsg Request | ResponseMsg Response | AckMsg Ack

datatype stateAction =
    ReturnNil
  | DispatchSend didcomm_msg string Destination

text \<open>The key types of package kms (\<open>kms.KeyType\<close> is a string type).\<close>

datatype KeyType =
    ED25519Type | BLS12381G2Type
  | ECDSAP256TypeIEEEP1363 | ECDSAP384TypeIEEEP1363 | ECDSAP521TypeIEEEP1363
  | ECDSAP256TypeDER | ECDSAP384TypeDER | ECDSAP521TypeDER
  | OtherKeyType string

section \<open>Collaborators\<close>

text \<open>
  Names that the source uses and that are declared outside the source files at hand are
  parameters of the model: the message-type constants and the namespace prefix, the
  functions of the Go standard library (\<open>encoding/json\<close>, \<open>encoding/base64\<close>,
  \<open>crypto/x509\<close>) and the functions of other packages of the repository (fingerprint,
  localkms, the Ed25519 signature suite with its public-key verifier, did, service,
  mapstructure).  Every theorem below holds for all values of these parameters unless it
  states an assumption on them.
\<close>

record pkg =
  InvitationMsgType :: string
  oobMsgType :: string
  RequestMsgType :: string
  ResponseMsgType :: string
  AckMsgType :: string
  CompleteMsgType :: string
  myNSPrefix :: string
  json_Marshal :: "Connection \<Rightarrow> ext_error + byte list"
  json_Unmarshal :: "byte list \<Rightarrow> ext_error + Connection"
  URLEncoding_EncodeToString :: "byte list \<Rightarrow> string"
  URLEncoding_DecodeString :: "string \<Rightarrow> ext_error + byte list"
  StdEncoding_EncodeToString :: "byte list \<Rightarrow> string"
  PubKeyFromDIDKey :: "string \<Rightarrow> ext_error + byte list"
  CreateKID :: "byte list \<Rightarrow> KeyType \<Rightarrow> ext_error + string"
  suite_Verify :: "byte list \<Rightarrow> byte list \<Rightarrow> byte list \<Rightarrow> ext_error option"
  ParsePKIXPublicKey :: "byte list \<Rightarrow> ext_error + byte list option"
  CreateDestination :: "Doc \<Rightarrow> ext_error + Destination"
  LookupService :: "Doc \<Rightarrow> string \<Rightarrow> Service option"
  did_Parse :: "string \<Rightarrow> ext_error + string"
  convertPeerToSov :: "Doc \<Rightarrow> ext_error + Doc"
  SerializeInterop :: "Doc \<Rightarrow> ext_error + byte list"
  getRequestConnection :: "Request \<Rightarrow> ext_error + Connection"
  CreateNamespaceKey :: "string \<Rightarrow> string \<Rightarrow> ext_error + string"
  mapstructure_NewDecoder :: "ext_error option"
  mapstructure_Decode :: "JsonObject \<Rightarrow> ext_error + Service"

text \<open>
  \<open>suite_Verify P pubKey doc signature\<close> is \<open>Verify\<close> of the suite
  \<open>ed25519signature2018.New(suite.WithVerifier(NewPublicKeyVerifier()))\<close> on the public key
  \<open>{Type: kms.ED25519, Value: pubKey}\<close>.  \<open>ParsePKIXPublicKey\<close> yields \<open>Some m\<close> for an
  ECDSA key whose \<open>elliptic.Marshal\<close> is \<open>m\<close> and \<open>None\<close> for a key of another kind.
  \<open>did_Parse\<close> yields the method of the parsed DID.
\<close>

text \<open>
  The context (\<open>type context struct\<close>, declared outside the source files at hand) bundles
  the stateful collaborators: the DID registry, the connection store and recorder, the key
  manager, the crypto provider, the mediator and the outbound dispatcher.  Each call is
  modelled by the value it returns.  The reads of the environment (\<open>uuid.New\<close>,
  \<open>time.Now().Unix()\<close>) are fields as well; \<open>time_Now_Unix\<close> is an \<open>int64\<close>.
  \<open>attach_Verify\<close> and \<open>attach_Sign\<close> are \<open>AttachmentData.Verify\<close> and
  \<open>AttachmentData.Sign\<close> with the context's crypto and key manager;
  \<open>GetDestination\<close> is \<open>service.GetDestination\<close> with the context's registry;
  \<open>GetInvitation\<close> and \<open>GetOOBInvitation\<close> are \<open>connectionRecorder.GetInvitation\<close> reading
  into an \<open>Invitation\<close> and into an \<open>OOBInvitation\<close>.
\<close>

record 'kh ctx =
  doACAPyInterop :: bool
  vdr_Resolve :: "string \<Rightarrow> ext_error + Doc"
  vdr_Create :: "string \<Rightarrow> Doc \<Rightarrow> bool \<Rightarrow> ext_error + Doc"
  SaveDIDFromDoc :: "Doc \<Rightarrow> ext_error option"
  GetInvitation :: "string \<Rightarrow> ext_error + Invitation"
  GetOOBInvitation :: "string \<Rightarrow> ext_error + OOBInvitation"
  GetConnectionRecordByNSThreadID :: "string \<Rightarrow> ext_error + Record"
  kms_Get :: "string \<Rightarrow> ext_error + 'kh"
  kms_CreateAndExportPubKeyBytes :: "KeyType \<Rightarrow> ext_error + string \<times> byte list"
  crypto_Sign :: "byte list \<Rightarrow> 'kh \<Rightarrow> ext_error + byte list"
  attach_Verify :: "AttachmentData \<Rightarrow> ext_error option"
  attach_Sign :: "AttachmentData \<Rightarrow> 'kh \<Rightarrow> byte list \<Rightarrow> ext_error + AttachmentData"
  GetRouterConfig :: "string \<Rightarrow> ext_error + string \<times> string list"
  AddKeyToRouter :: "string \<Rightarrow> string \<Rightarrow> ext_error option"
  GetDestination :: "string \<Rightarrow> ext_error + Destination"
  outboundDispatcher_Send :: "didcomm_msg \<Rightarrow> string \<Rightarrow> Destination \<Rightarrow> ext_error option"
  uuid_New :: string
  time_Now_Unix :: int

section \<open>The code of the package\<close>

subsection \<open>Error plumbing\<close>

text \<open>
  \<open>wrapf p r\<close> is the idiom \<open>if err != nil { return fmt.Errorf(p + "%w", err) }\<close>;
  \<open>ext\<close> turns a collaborator's result into a result of the package; \<open>bind_f\<close> goes on
  with the value of a call that did not fail; \<open>index0 xs\<close> is \<open>xs[0]\<close>.
\<close>

fun wrapf :: "string \<Rightarrow> failure + 'a \<Rightarrow> failure + 'a" where
  "wrapf p (Inl (Err e)) = Inl (Err (Errorf p e))"
| "wrapf p (Inl (Panic q)) = Inl (Panic q)"
| "wrapf p (Inr v) = Inr v"

fun ext :: "ext_error + 'a \<Rightarrow> failure + 'a" where
  "ext (Inl e) = Inl (Err (External e))"
| "ext (Inr v) = Inr v"

fun ext_check :: "ext_error option \<Rightarrow> failure + unit" where
  "ext_check (Some e) = Inl (Err (External e))"
| "ext_check None = Inr ()"

fun bind_f :: "failure + 'a \<Rightarrow> ('a \<Rightarrow> failure + 'b) \<Rightarrow> failure + 'b" where
  "bind_f (Inl e) k = Inl e"
| "bind_f (Inr v) k = k v"

fun index0 :: "'a list \<Rightarrow> failure + 'a" where
  "index0 [] = Inl (Panic IndexOutOfRange)"
| "index0 (x # xs) = Inr x"

subsection \<open>Constants\<close>

definition ackStatusOK :: string where "ackStatusOK = ''ok''"
definition didCommServiceType :: string where "didCommServiceType = ''did-communication''"
definition timestamplen :: nat where "timestamplen = 8"
definition ed25519VerificationKey2018 :: string where
  "ed25519VerificationKey2018 = ''Ed25519VerificationKey2018''"
definition bls12381G2Key2020 :: string where "bls12381G2Key2020 = ''Bls12381G2Key2020''"
definition jsonWebKey2020 :: string where "jsonWebKey2020 = ''JsonWebKey2020''"
definition didMethod :: string where "didMethod = ''peer''"

text \<open>The type of a connection signature, a literal of \<open>prepareConnectionSignature\<close>.\<close>

definition signature_type :: string where
  "signature_type = ''https://didcomm.org/signature/1.0/ed25519Sha512_single''"

definition stateFromMsgType :: "pkg \<Rightarrow> string \<Rightarrow> error + state" where
  "stateFromMsgType P msgType =
     (if msgType = InvitationMsgType P \<or> msgType = oobMsgType P then Inr Invited
      else if msgType = RequestMsgType P then Inr Requested
      else if msgType = ResponseMsgType P then Inr Responded
      else if msgType = AckMsgType P \<or> msgType = CompleteMsgType P then Inr Completed
      else Inl (New (''unrecognized msgType: '' @ msgType)))"

subsection \<open>Verification-key resolver\<close>

definition isDID :: "string \<Rightarrow> bool" where
  "isDID str = (let didPrefix = ''did:'' in take (length didPrefix) str = didPrefix)"

definition recipientKey :: "pkg \<Rightarrow> Doc \<Rightarrow> failure + string" where
  "recipientKey P doc =
     bind_f (wrapf ''failed to create destination: '' (ext (CreateDestination P doc)))
       (\<lambda>dest. index0 (dest_RecipientKeys dest))"

definition getServiceBlock :: "pkg \<Rightarrow> 'kh ctx \<Rightarrow> OOBInvitation \<Rightarrow> failure + Service" where
  "getServiceBlock P c i =
     bind_f
       (case oob_Target i of
          TargetString svc \<Rightarrow>
            bind_f (wrapf (''failed to resolve myDID='' @ svc @ '' : '') (ext (vdr_Resolve c svc)))
              (\<lambda>doc. case LookupService P doc didCommServiceType of
                        None \<Rightarrow> Inl (Err (New (''no valid service block found on myDID='' @ svc @
                                   '' with serviceType='' @ didCommServiceType)))
                      | Some s \<Rightarrow> Inr s)
        | TargetService svc \<Rightarrow> Inr svc
        | TargetMap svc \<Rightarrow>
            bind_f (wrapf ''failed to initialize decoder : '' (ext_check (mapstructure_NewDecoder P)))
              (\<lambda>_. wrapf ''failed to decode service block : '' (ext (mapstructure_Decode P svc)))
        | TargetOther svc \<Rightarrow> Inl (Err (New (''unsupported target type: '' @ svc))))
       (\<lambda>block. Inr (if length (oob_MediaTypeProfiles i) > 0
                      then block\<lparr>svc_Accept := oob_MediaTypeProfiles i\<rparr> else block))"

definition resolveVerKey :: "pkg \<Rightarrow> 'kh ctx \<Rightarrow> OOBInvitation \<Rightarrow> failure + string" where
  "resolveVerKey P c i =
     bind_f (wrapf ''failed to get service block from oobinvitation : '' (getServiceBlock P c i))
       (\<lambda>svc. index0 (svc_RecipientKeys svc))"

definition getVerKeyFromOOBInvitation :: "pkg \<Rightarrow> 'kh ctx \<Rightarrow> string \<Rightarrow> failure + string" where
  "getVerKeyFromOOBInvitation P c invitationID =
     (case GetOOBInvitation c invitationID of
        Inl e \<Rightarrow>
          if is_ErrDataNotFound e then Inl (Err errVerKeyNotFound)
          else Inl (Err (Errorf ''failed to load oob invitation: '' (External e)))
      | Inr invitation \<Rightarrow>
          if oob_Type invitation \<noteq> oobMsgType P then Inl (Err errVerKeyNotFound)
          else wrapf ''failed to get my verkey: '' (resolveVerKey P c invitation))"

definition getInvitationRecipientKey :: "pkg \<Rightarrow> 'kh ctx \<Rightarrow> Invitation \<Rightarrow> failure + string" where
  "getInvitationRecipientKey P c invitation =
     (if inv_DID invitation \<noteq> [] then
        bind_f (wrapf ''get invitation recipient key: '' (ext (vdr_Resolve c (inv_DID invitation))))
          (\<lambda>doc. wrapf ''getInvitationRecipientKey: '' (recipientKey P doc))
      else index0 (inv_RecipientKeys invitation))"

definition getVerKey :: "pkg \<Rightarrow> 'kh ctx \<Rightarrow> string \<Rightarrow> failure + string" where
  "getVerKey P c invitationID =
     (case getVerKeyFromOOBInvitation P c invitationID of
        Inr pubKey \<Rightarrow> Inr pubKey
      | Inl (Panic q) \<Rightarrow> Inl (Panic q)
      | Inl (Err err) \<Rightarrow>
          if \<not> Is_errVerKeyNotFound err
          then Inl (Err (Errorf ''failed to get my verkey from oob invitation: '' err))
          else
            bind_f
              (if isDID invitationID
               then Inr (Invitation_zero\<lparr>inv_ID := invitationID, inv_DID := invitationID\<rparr>)
               else wrapf (''get invitation for signature [invitationID='' @ invitationID @ '']: '')
                      (ext (GetInvitation c invitationID)))
              (\<lambda>invitation. wrapf ''get invitation recipient key: ''
                               (getInvitationRecipientKey P c invitation)))"

subsection \<open>Connection-signature codec\<close>

text \<open>\<open>binary.BigEndian.PutUint64\<close> into a fresh buffer of \<open>timestamplen\<close> bytes.\<close>

definition PutUint64 :: "64 word \<Rightarrow> byte list" where
  "PutUint64 v =
     [ucast (drop_bit 56 v), ucast (drop_bit 48 v), ucast (drop_bit 40 v), ucast (drop_bit 32 v),
      ucast (drop_bit 24 v), ucast (drop_bit 16 v), ucast (drop_bit 8 v), ucast v]"

text \<open>
  The big-endian reading of eight bytes (\<open>binary.BigEndian.Uint64\<close>), against which the
  byte order of \<open>PutUint64\<close> is stated.
\<close>

fun Uint64 :: "byte list \<Rightarrow> 64 word" where
  "Uint64 (b0 # b1 # b2 # b3 # b4 # b5 # b6 # b7 # rest) =
     ucast b7 OR push_bit 8 (ucast b6) OR push_bit 16 (ucast b5) OR push_bit 24 (ucast b4) OR
     push_bit 32 (ucast b3) OR push_bit 40 (ucast b2) OR push_bit 48 (ucast b1) OR
     push_bit 56 (ucast b0)"
| "Uint64 bs = 0"

definition getEpochTime :: "'kh ctx \<Rightarrow> int" where
  "getEpochTime c = time_Now_Unix c"

definition prepareConnectionSignature ::
  "pkg \<Rightarrow> 'kh ctx \<Rightarrow> Connection \<Rightarrow> string \<Rightarrow> failure + ConnectionSignature" where
  "prepareConnectionSignature P c connection invitationID =
     bind_f (wrapf ''failed to marshal connection: '' (ext (json_Marshal P connection)))
       (\<lambda>connAttributeBytes.
     let now = getEpochTime c;
         timestampBuf = PutUint64 (word_of_int now);
         concatenateSignData = timestampBuf @ connAttributeBytes in
     bind_f (wrapf ''failed to get verkey: '' (getVerKey P c invitationID))
       (\<lambda>didKey.
     bind_f (wrapf (''failed to extract pubKeyBytes from did:key ['' @ didKey @ '']: '')
               (ext (PubKeyFromDIDKey P didKey)))
       (\<lambda>pubKeyBytes.
     bind_f (wrapf ''prepareConnectionSignature: failed to generate KID from public key: ''
               (ext (CreateKID P pubKeyBytes ED25519Type)))
       (\<lambda>signingKID.
     bind_f (wrapf ''prepareConnectionSignature: failed to get key handle: ''
               (ext (kms_Get c signingKID)))
       (\<lambda>kh.
     bind_f (wrapf ''sign response message: '' (ext (crypto_Sign c concatenateSignData kh)))
       (\<lambda>signature.
     Inr \<lparr>sig_Type = signature_type,
          sig_SignedData = URLEncoding_EncodeToString P concatenateSignData,
          sig_SignVerKey = didKey,
          sig_Signature = URLEncoding_EncodeToString P signature\<rparr>))))))"

definition verifySignature ::
  "pkg \<Rightarrow> ConnectionSignature option \<Rightarrow> string \<Rightarrow> failure + Connection" where
  "verifySignature P connSignature recipientKeys =
     (case connSignature of
        None \<Rightarrow> Inl (Panic NilDereference)
      | Some cs \<Rightarrow>
     bind_f (wrapf ''decode signature data: '' (ext (URLEncoding_DecodeString P (sig_SignedData cs))))
       (\<lambda>sigData.
     if length sigData = 0 then Inl (Err (New ''missing or invalid signature data''))
     else
     bind_f (wrapf ''decode signature: '' (ext (URLEncoding_DecodeString P (sig_Signature cs))))
       (\<lambda>signature.
     bind_f (wrapf (''verifySignature: failed to parse pubKeyBytes from recipientKeys ['' @
                     recipientKeys @ '']: '')
               (ext (PubKeyFromDIDKey P recipientKeys)))
       (\<lambda>pubKey.
     bind_f (wrapf ''verify signature: '' (ext_check (suite_Verify P pubKey sigData signature)))
       (\<lambda>_.
     if length sigData \<le> timestamplen then Inl (Err (New ''missing connection attribute bytes''))
     else
       let connBytes = drop timestamplen sigData in
       wrapf ''JSON unmarshalling of connection: '' (ext (json_Unmarshal P connBytes)))))))"

subsection \<open>DID document and connection assembly\<close>

definition getPublicDID :: "options option \<Rightarrow> string" where
  "getPublicDID opts = (case opts of None \<Rightarrow> [] | Some opt \<Rightarrow> opt_publicDID opt)"

definition getRouterConnections :: "options option \<Rightarrow> string list" where
  "getRouterConnections opts = (case opts of None \<Rightarrow> [] | Some opt \<Rightarrow> opt_routerConnections opt)"

definition getLabel :: "options option \<Rightarrow> string" where
  "getLabel opts = (case opts of None \<Rightarrow> [] | Some opt \<Rightarrow> opt_label opt)"

definition getDestination :: "'kh ctx \<Rightarrow> Invitation \<Rightarrow> failure + Destination" where
  "getDestination c invitation =
     (if inv_DID invitation \<noteq> [] then ext (GetDestination c (inv_DID invitation))
      else Inr \<lparr>dest_RecipientKeys = inv_RecipientKeys invitation,
                dest_ServiceEndpoint = inv_ServiceEndpoint invitation,
                dest_RoutingKeys = inv_RoutingKeys invitation,
                dest_MediaTypeProfiles = []\<rparr>)"

fun getVerMethodType :: "KeyType \<Rightarrow> string" where
  "getVerMethodType ED25519Type = ed25519VerificationKey2018"
| "getVerMethodType BLS12381G2Type = bls12381G2Key2020"
| "getVerMethodType (OtherKeyType k) = []"
| "getVerMethodType kt = jsonWebKey2020"

text \<open>\<open>bytes[1:]\<close> panics on an empty slice.\<close>

fun slice_from1 :: "byte list \<Rightarrow> failure + byte list" where
  "slice_from1 [] = Inl (Panic SliceBoundsOutOfRange)"
| "slice_from1 (b # bs) = Inr bs"

fun convertPubKeyBytes :: "pkg \<Rightarrow> byte list \<Rightarrow> KeyType \<Rightarrow> failure + byte list" where
  "convertPubKeyBytes P bytes ED25519Type = Inr bytes"
| "convertPubKeyBytes P bytes BLS12381G2Type = Inr bytes"
| "convertPubKeyBytes P bytes ECDSAP256TypeIEEEP1363 = slice_from1 bytes"
| "convertPubKeyBytes P bytes ECDSAP384TypeIEEEP1363 = slice_from1 bytes"
| "convertPubKeyBytes P bytes ECDSAP521TypeIEEEP1363 = slice_from1 bytes"
| "convertPubKeyBytes P bytes (OtherKeyType k) = Inl (Err (New ''invalid key type''))"
| "convertPubKeyBytes P bytes kt =
     bind_f (ext (ParsePKIXPublicKey P bytes))
       (\<lambda>pubKey. case pubKey of
                    None \<Rightarrow> Inl (Err (New ''invalid EC key''))
                  | Some marshalled \<Rightarrow> slice_from1 marshalled)"

definition createNewKeyAndVerificationMethod ::
  "pkg \<Rightarrow> 'kh ctx \<Rightarrow> Doc \<Rightarrow> KeyType \<Rightarrow> failure + Doc" where
  "createNewKeyAndVerificationMethod P c didDoc keyType =
     (let vmType = getVerMethodType keyType in
      bind_f (ext (kms_CreateAndExportPubKeyBytes c keyType))
        (\<lambda>(kid, exported).
      bind_f (convertPubKeyBytes P exported keyType)
        (\<lambda>pubKeyBytes.
      let vm = \<lparr>vm_ID = ''#'' @ kid, vm_Type = vmType, vm_Value = pubKeyBytes\<rparr> in
      Inr (didDoc\<lparr>doc_VerificationMethod := doc_VerificationMethod didDoc @ [vm],
                  doc_Authentication := doc_Authentication didDoc @ [ReferencedAuthentication vm]\<rparr>))))"

text \<open>The loop over the router connections that collects one service entry for each.\<close>

fun routerServices :: "'kh ctx \<Rightarrow> string list \<Rightarrow> Service list \<Rightarrow> failure + Service list" where
  "routerServices c [] services = Inr services"
| "routerServices c (connID # rest) services =
     bind_f (wrapf ''did doc - fetch router config: '' (ext (GetRouterConfig c connID)))
       (\<lambda>(serviceEndpoint, routingKeys).
          routerServices c rest
            (services @ [Service_zero\<lparr>svc_ServiceEndpoint := serviceEndpoint,
                                       svc_RoutingKeys := routingKeys\<rparr>]))"

text \<open>The two nested loops that register every recipient key with every router.\<close>

fun addKeyToRouters :: "'kh ctx \<Rightarrow> string \<Rightarrow> string list \<Rightarrow> failure + unit" where
  "addKeyToRouters c recKey [] = Inr ()"
| "addKeyToRouters c recKey (connID # rest) =
     bind_f (wrapf ''did doc - add key to the router: '' (ext_check (AddKeyToRouter c connID recKey)))
       (\<lambda>_. addKeyToRouters c recKey rest)"

fun addKeysToRouters :: "'kh ctx \<Rightarrow> string list \<Rightarrow> string list \<Rightarrow> failure + unit" where
  "addKeysToRouters c [] routerConnections = Inr ()"
| "addKeysToRouters c (recKey # keys) routerConnections =
     bind_f (addKeyToRouters c recKey routerConnections)
       (\<lambda>_. addKeysToRouters c keys routerConnections)"

definition getDIDDocAndConnection ::
  "pkg \<Rightarrow> 'kh ctx \<Rightarrow> string \<Rightarrow> string list \<Rightarrow> failure + Doc \<times> Connection" where
  "getDIDDocAndConnection P c pubDID routerConnections =
     (if pubDID \<noteq> [] then
        bind_f (wrapf (''resolve public did['' @ pubDID @ '']: '') (ext (vdr_Resolve c pubDID)))
          (\<lambda>doc.
        bind_f (ext_check (SaveDIDFromDoc c doc))
          (\<lambda>_. Inr (doc, \<lparr>conn_DID = doc_ID doc, conn_DIDDoc = None\<rparr>)))
      else
        bind_f (routerServices c routerConnections [])
          (\<lambda>collected.
        let services = (if length collected = 0 then collected @ [Service_zero] else collected);
            newDID = Doc_zero\<lparr>doc_Service := services\<rparr> in
        bind_f (wrapf ''failed to create and export public key: ''
                  (createNewKeyAndVerificationMethod P c newDID ED25519Type))
          (\<lambda>newDID.
        bind_f (wrapf (''create '' @ didMethod @ '' did: '') (ext (vdr_Create c didMethod newDID False)))
          (\<lambda>doc.
        bind_f
          (if length routerConnections \<noteq> 0 then
             (case LookupService P doc didCommServiceType of
                Some svc \<Rightarrow> addKeysToRouters c (svc_RecipientKeys svc) routerConnections
              | None \<Rightarrow> Inr ())
           else Inr ())
          (\<lambda>_.
        bind_f (ext_check (SaveDIDFromDoc c doc))
          (\<lambda>_. Inr (doc, \<lparr>conn_DID = doc_ID doc, conn_DIDDoc = Some doc\<rparr>)))))))"

definition resolveDidDocFromConnection :: "pkg \<Rightarrow> 'kh ctx \<Rightarrow> Connection \<Rightarrow> failure + Doc" where
  "resolveDidDocFromConnection P c conn =
     (case conn_DIDDoc conn of
        None \<Rightarrow> ext (vdr_Resolve c (conn_DID conn))
      | Some didDoc \<Rightarrow>
          bind_f (wrapf (''resolveDidDocFromConnection: failed to parse DID ['' @ doc_ID didDoc @ '']: '')
                    (ext (did_Parse P (doc_ID didDoc))))
            (\<lambda>id_Method.
          let method = (if id_Method = ''sov'' then ''peer'' else id_Method) in
          bind_f (wrapf ''failed to store provided did document: ''
                    (ext (vdr_Create c method didDoc True)))
            (\<lambda>_. Inr didDoc)))"

subsection \<open>Handlers\<close>

text \<open>
  A handler returns \<open>(stateAction, *Record, error)\<close>.  The record it returns is the
  record it was given, updated in place; the model returns the updated record.
\<close>

definition handleInboundOOBInvitation ::
  "pkg \<Rightarrow> 'kh ctx \<Rightarrow> stateMachineMsg \<Rightarrow> string \<Rightarrow> options option \<Rightarrow> failure + stateAction \<times> Record"
  where
  "handleInboundOOBInvitation P c msg thid opts =
     bind_f (wrapf ''handleInboundOOBInvitation - failed to get diddoc and connection: ''
               (getDIDDocAndConnection P c (getPublicDID opts) (getRouterConnections opts)))
       (\<lambda>(myDID, conn).
     case msg_connRecord msg of
       None \<Rightarrow> Inl (Panic NilDereference)
     | Some r \<Rightarrow>
     let connRecord = r\<lparr>rec_MyDID := doc_ID myDID, rec_ThreadID := thid\<rparr> in
     bind_f (wrapf ''failed to decode oob invitation: '' (ext (msg_Decode_OOBInvitation msg)))
       (\<lambda>oobInvitation.
     let request = \<lparr>req_Type = RequestMsgType P, req_ID = thid, req_Label = oob_MyLabel oobInvitation,
                    req_Connection = Some conn,
                    req_Thread = Some \<lparr>thr_ID = thid, thr_PID = rec_ParentThreadID connRecord\<rparr>,
                    req_DocAttach = None\<rparr> in
     bind_f (wrapf ''failed to get service block: '' (getServiceBlock P c oobInvitation))
       (\<lambda>svc.
     let dest = \<lparr>dest_RecipientKeys = svc_RecipientKeys svc,
                 dest_ServiceEndpoint = svc_ServiceEndpoint svc,
                 dest_RoutingKeys = svc_RoutingKeys svc,
                 dest_MediaTypeProfiles = svc_Accept svc\<rparr> in
     bind_f (wrapf ''handle inbound OOBInvitation: '' (recipientKey P myDID))
       (\<lambda>recipientKey.
     Inr (DispatchSend (RequestMsg request) recipientKey dest, connRecord)))))"

definition handleInboundInvitation ::
  "pkg \<Rightarrow> 'kh ctx \<Rightarrow> Invitation \<Rightarrow> string \<Rightarrow> options option \<Rightarrow> Record option
     \<Rightarrow> failure + stateAction \<times> Record" where
  "handleInboundInvitation P c invitation thid opts connRec =
     bind_f (getDestination c invitation)
       (\<lambda>destination.
     bind_f (getDIDDocAndConnection P c (getPublicDID opts) (getRouterConnections opts))
       (\<lambda>(didDoc, conn).
     case connRec of
       None \<Rightarrow> Inl (Panic NilDereference)
     | Some r \<Rightarrow>
     let pid = (if rec_Implicit r then inv_DID invitation else inv_ID invitation);
         request = \<lparr>req_Type = RequestMsgType P, req_ID = thid, req_Label = getLabel opts,
                    req_Connection = Some conn,
                    req_Thread = Some \<lparr>thr_ID = [], thr_PID = pid\<rparr>,
                    req_DocAttach = None\<rparr>;
         connRec' = r\<lparr>rec_MyDID := conn_DID conn\<rparr> in
     bind_f (wrapf ''handle inbound invitation: '' (recipientKey P didDoc))
       (\<lambda>senderKey.
     Inr (DispatchSend (RequestMsg request) senderKey destination, connRec'))))"

definition TrimPrefix :: "string \<Rightarrow> string \<Rightarrow> string" where
  "TrimPrefix s p = (if take (length p) s = p then drop (length p) s else s)"

definition prepareResponseWithSignedAttachment ::
  "pkg \<Rightarrow> 'kh ctx \<Rightarrow> Request \<Rightarrow> Response \<Rightarrow> Doc \<Rightarrow> failure + Response" where
  "prepareResponseWithSignedAttachment P c request response responseDidDoc =
     bind_f
       (case req_DocAttach request of
          None \<Rightarrow> Inr ()
        | Some a \<Rightarrow> wrapf ''verifying signature on doc~attach: ''
                     (ext_check (attach_Verify c (att_Data a))))
       (\<lambda>_.
     bind_f
       (if doACAPyInterop c
        then wrapf ''marshaling did doc: '' (ext (SerializeInterop P responseDidDoc))
        else Inr [])
       (\<lambda>docBytes.
     let docAttach = \<lparr>att_MimeType = ''application/json'',
                      att_Data = \<lparr>ad_Base64 = StdEncoding_EncodeToString P docBytes, ad_JWS = []\<rparr>\<rparr> in
     case req_Thread request of
       None \<Rightarrow> Inl (Panic NilDereference)
     | Some thread \<Rightarrow>
     bind_f (wrapf ''getting sender verkey: '' (getVerKey P c (thr_PID thread)))
       (\<lambda>invitationKey.
     bind_f (wrapf (''failed to extract pubKeyBytes from did:key ['' @ invitationKey @ '']: '')
               (ext (PubKeyFromDIDKey P invitationKey)))
       (\<lambda>pubKeyBytes.
     bind_f (wrapf ''failed to generate KID from public key: ''
               (ext (CreateKID P pubKeyBytes ED25519Type)))
       (\<lambda>signingKID.
     bind_f (wrapf ''failed to get key handle: '' (ext (kms_Get c signingKID)))
       (\<lambda>kh.
     bind_f (wrapf ''signing did_doc~attach: ''
               (ext (attach_Sign c (att_Data docAttach) kh pubKeyBytes)))
       (\<lambda>signed.
     Inr (response\<lparr>resp_DID := TrimPrefix (doc_ID responseDidDoc) ''did:sov:'',
                   resp_DocAttach := Some (docAttach\<lparr>att_Data := signed\<rparr>)\<rparr>))))))))"

definition prepareResponse ::
  "pkg \<Rightarrow> 'kh ctx \<Rightarrow> Request \<Rightarrow> Doc \<Rightarrow> Connection \<Rightarrow> failure + Response" where
  "prepareResponse P c request responseDidDoc responseConnection =
     (let response0 = \<lparr>resp_Type = ResponseMsgType P, resp_ID = uuid_New c,
                       resp_Thread = Some \<lparr>thr_ID = req_ID request, thr_PID = []\<rparr>,
                       resp_ConnectionSignature = None, resp_DID = [], resp_DocAttach = None\<rparr>;
          response =
            (case req_Thread request of
               Some thread \<Rightarrow>
                 response0\<lparr>resp_Thread := Some \<lparr>thr_ID = req_ID request, thr_PID = thr_PID thread\<rparr>\<rparr>
             | None \<Rightarrow> response0)
      in
      if doACAPyInterop c
      then prepareResponseWithSignedAttachment P c request response responseDidDoc
      else
        (case req_Thread request of
           None \<Rightarrow> Inl (Panic NilDereference)
         | Some thread \<Rightarrow>
             bind_f (wrapf ''connection signature: ''
                       (prepareConnectionSignature P c responseConnection (thr_PID thread)))
               (\<lambda>encodedConnectionSignature.
                  Inr (response\<lparr>resp_ConnectionSignature := Some encodedConnectionSignature\<rparr>))))"

definition handleInboundRequest ::
  "pkg \<Rightarrow> 'kh ctx \<Rightarrow> Request \<Rightarrow> options option \<Rightarrow> Record option \<Rightarrow> failure + stateAction \<times> Record"
  where
  "handleInboundRequest P c request opts connRec =
     bind_f (wrapf ''extracting connection data from request: '' (ext (getRequestConnection P request)))
       (\<lambda>requestConnection.
     bind_f (wrapf ''resolve did doc from exchange request connection: ''
               (resolveDidDocFromConnection P c requestConnection))
       (\<lambda>requestDidDoc.
     bind_f (wrapf ''get response did doc and connection: ''
               (getDIDDocAndConnection P c (getPublicDID opts) (getRouterConnections opts)))
       (\<lambda>(responseDidDoc0, responseConnection).
     bind_f (wrapf ''handle inbound request: '' (recipientKey P responseDidDoc0))
       (\<lambda>senderVerKey.
     bind_f
       (if doACAPyInterop c
        then wrapf (''converting my did doc to a '' @ [CHR 0x27] @ ''sov'' @ [CHR 0x27] @
                     '' doc for response message: '')
               (ext (convertPeerToSov P responseDidDoc0))
        else Inr responseDidDoc0)
       (\<lambda>responseDidDoc.
     bind_f (wrapf ''preparing response: ''
               (prepareResponse P c request responseDidDoc responseConnection))
       (\<lambda>response.
     case connRec of
       None \<Rightarrow> Inl (Panic NilDereference)
     | Some r \<Rightarrow>
     let connRec1 = r\<lparr>rec_TheirDID := conn_DID requestConnection,
                      rec_MyDID := conn_DID responseConnection,
                      rec_TheirLabel := req_Label request\<rparr> in
     bind_f (ext (CreateDestination P requestDidDoc))
       (\<lambda>destination.
     let connRec2 = (if length (dest_MediaTypeProfiles destination) > 0
                     then connRec1\<lparr>rec_MediaTypeProfiles := dest_MediaTypeProfiles destination\<rparr>
                     else connRec1) in
     Inr (DispatchSend (ResponseMsg response) senderVerKey destination, connRec2))))))))"

definition handleInboundResponse ::
  "pkg \<Rightarrow> 'kh ctx \<Rightarrow> Response \<Rightarrow> failure + stateAction \<times> Record" where
  "handleInboundResponse P c response =
     (case resp_Thread response of
        None \<Rightarrow> Inl (Panic NilDereference)
      | Some thread \<Rightarrow>
     let ack = \<lparr>ack_Type = AckMsgType P, ack_ID = uuid_New c, ack_Status = ackStatusOK,
                ack_Thread = Some \<lparr>thr_ID = thr_ID thread, thr_PID = []\<rparr>\<rparr> in
     bind_f (ext (CreateNamespaceKey P (myNSPrefix P) (thr_ID thread)))
       (\<lambda>nsThID.
     bind_f (wrapf ''get connection record: '' (ext (GetConnectionRecordByNSThreadID c nsThID)))
       (\<lambda>loaded.
     bind_f (index0 (rec_RecipientKeys loaded))
       (\<lambda>invitationKey.
     bind_f (verifySignature P (resp_ConnectionSignature response) invitationKey)
       (\<lambda>conn.
     let connRecord = loaded\<lparr>rec_TheirDID := conn_DID conn\<rparr> in
     bind_f (wrapf ''resolve did doc from exchange response connection: ''
               (resolveDidDocFromConnection P c conn))
       (\<lambda>responseDidDoc.
     bind_f (wrapf ''prepare destination from response did doc: ''
               (ext (CreateDestination P responseDidDoc)))
       (\<lambda>destination.
     bind_f (wrapf ''fetching did document: '' (ext (vdr_Resolve c (rec_MyDID connRecord))))
       (\<lambda>doc.
     bind_f (wrapf ''handle inbound response: '' (recipientKey P doc))
       (\<lambda>recKey.
     Inr (DispatchSend (AckMsg ack) recKey destination, connRecord))))))))))"

subsection \<open>ExecuteInbound\<close>

text \<open>
  \<open>ExecuteInbound\<close> returns the four values \<open>(connRecord, state, action, err)\<close>, each of
  them possibly \<open>nil\<close>, unless it panics.
\<close>

type_synonym exec_result = "Record option \<times> state option \<times> stateAction option \<times> error option"

text \<open>
  \<open>handled pre r k\<close> is a call with result \<open>r\<close> followed by
  \<open>if err != nil { return nil, nil, nil, fmt.Errorf(pre + "%w", err) }\<close>; \<open>k\<close> is the
  rest of the method.
\<close>

fun handled ::
  "string \<Rightarrow> failure + 'a \<Rightarrow> ('a \<Rightarrow> panic + exec_result) \<Rightarrow> panic + exec_result" where
  "handled pre (Inl (Panic q)) k = Inl q"
| "handled pre (Inl (Err e)) k = Inr (None, None, None, Some (Errorf pre e))"
| "handled pre (Inr v) k = k v"

definition illegal_msg_type :: "string \<Rightarrow> state \<Rightarrow> error" where
  "illegal_msg_type t s = New (''illegal msg type '' @ t @ '' for state '' @ Name s)"

definition noOp_ExecuteInbound ::
  "pkg \<Rightarrow> 'kh ctx \<Rightarrow> stateMachineMsg \<Rightarrow> string \<Rightarrow> panic + exec_result" where
  "noOp_ExecuteInbound P c msg thid = Inr (None, None, None, Some (New ''cannot execute no-op''))"

definition null_ExecuteInbound ::
  "pkg \<Rightarrow> 'kh ctx \<Rightarrow> stateMachineMsg \<Rightarrow> string \<Rightarrow> panic + exec_result" where
  "null_ExecuteInbound P c msg thid = Inr (Some Record_zero, Some NoOp, None, None)"

definition invited_ExecuteInbound ::
  "pkg \<Rightarrow> 'kh ctx \<Rightarrow> stateMachineMsg \<Rightarrow> string \<Rightarrow> panic + exec_result" where
  "invited_ExecuteInbound P c msg thid =
     (if msg_Type msg \<noteq> InvitationMsgType P \<and> msg_Type msg \<noteq> oobMsgType P
      then Inr (None, None, None, Some (illegal_msg_type (msg_Type msg) Invited))
      else Inr (msg_connRecord msg, Some Requested, Some ReturnNil, None))"

definition requested_ExecuteInbound ::
  "pkg \<Rightarrow> 'kh ctx \<Rightarrow> stateMachineMsg \<Rightarrow> string \<Rightarrow> panic + exec_result" where
  "requested_ExecuteInbound P c msg thid =
     (if msg_Type msg = oobMsgType P then
        handled ''failed to handle inbound oob invitation : ''
          (handleInboundOOBInvitation P c msg thid (msg_options msg))
          (\<lambda>(action, record). Inr (Some record, Some NoOp, Some action, None))
      else if msg_Type msg = InvitationMsgType P then
        handled ''JSON unmarshalling of invitation: '' (ext (msg_Decode_Invitation msg))
          (\<lambda>invitation.
        handled ''handle inbound invitation: ''
          (handleInboundInvitation P c invitation thid (msg_options msg) (msg_connRecord msg))
          (\<lambda>(action, connRecord). Inr (Some connRecord, Some NoOp, Some action, None)))
      else if msg_Type msg = RequestMsgType P then
        Inr (msg_connRecord msg, Some Responded, Some ReturnNil, None)
      else Inr (None, None, None, Some (illegal_msg_type (msg_Type msg) Requested)))"

definition responded_ExecuteInbound ::
  "pkg \<Rightarrow> 'kh ctx \<Rightarrow> stateMachineMsg \<Rightarrow> string \<Rightarrow> panic + exec_result" where
  "responded_ExecuteInbound P c msg thid =
     (if msg_Type msg = RequestMsgType P then
        handled ''JSON unmarshalling of request: '' (ext (msg_Decode_Request msg))
          (\<lambda>request.
        handled ''handle inbound request: ''
          (handleInboundRequest P c request (msg_options msg) (msg_connRecord msg))
          (\<lambda>(action, connRecord). Inr (Some connRecord, Some NoOp, Some action, None)))
      else if msg_Type msg = ResponseMsgType P \<or> msg_Type msg = CompleteMsgType P then
        Inr (msg_connRecord msg, Some Completed, Some ReturnNil, None)
      else Inr (None, None, None, Some (illegal_msg_type (msg_Type msg) Responded)))"

definition completed_ExecuteInbound ::
  "pkg \<Rightarrow> 'kh ctx \<Rightarrow> stateMachineMsg \<Rightarrow> string \<Rightarrow> panic + exec_result" where
  "completed_ExecuteInbound P c msg thid =
     (if msg_Type msg = ResponseMsgType P then
        handled ''JSON unmarshalling of response: '' (ext (msg_Decode_Response msg))
          (\<lambda>response.
        handled ''handle inbound response: '' (handleInboundResponse P c response)
          (\<lambda>(action, connRecord). Inr (Some connRecord, Some NoOp, Some action, None)))
      else if msg_Type msg = AckMsgType P then
        (let action = ReturnNil in Inr (msg_connRecord msg, Some NoOp, Some action, None))
      else if msg_Type msg = CompleteMsgType P then
        handled ''JSON unmarshalling of complete: '' (ext_check (msg_Decode_Complete msg))
          (\<lambda>_.
        let action = ReturnNil in
        case msg_connRecord msg of
          None \<Rightarrow> Inr (None, Some NoOp, Some action, None)
        | Some connRec \<Rightarrow> Inr (Some connRec, Some NoOp, Some action, None))
      else Inr (None, None, None, Some (illegal_msg_type (msg_Type msg) Completed)))"

definition abandoned_ExecuteInbound ::
  "pkg \<Rightarrow> 'kh ctx \<Rightarrow> stateMachineMsg \<Rightarrow> string \<Rightarrow> panic + exec_result" where
  "abandoned_ExecuteInbound P c msg thid = Inr (None, None, None, Some (New ''not implemented''))"

text \<open>The method call \<open>s.ExecuteInbound(msg, thid, ctx)\<close> on a value of the interface.\<close>

fun ExecuteInbound ::
  "pkg \<Rightarrow> 'kh ctx \<Rightarrow> state \<Rightarrow> stateMachineMsg \<Rightarrow> string \<Rightarrow> panic + exec_result" where
  "ExecuteInbound P c NoOp msg thid = noOp_ExecuteInbound P c msg thid"
| "ExecuteInbound P c Null msg thid = null_ExecuteInbound P c msg thid"
| "ExecuteInbound P c Invited msg thid = invited_ExecuteInbound P c msg thid"
| "ExecuteInbound P c Requested msg thid = requested_ExecuteInbound P c msg thid"
| "ExecuteInbound P c Responded msg thid = responded_ExecuteInbound P c msg thid"
| "ExecuteInbound P c Completed msg thid = completed_ExecuteInbound P c msg thid"
| "ExecuteInbound P c Abandoned msg thid = abandoned_ExecuteInbound P c msg thid"

text \<open>Calling an action: the calls of the dispatcher it makes, and the error it returns.\<close>

fun dispatches :: "stateAction \<Rightarrow> (didcomm_msg \<times> string \<times> Destination) list" where
  "dispatches ReturnNil = []"
| "dispatches (DispatchSend m k d) = [(m, k, d)]"

fun call_action :: "'kh ctx \<Rightarrow> stateAction \<Rightarrow> ext_error option" where
  "call_action c ReturnNil = None"
| "call_action c (DispatchSend m k d) = outboundDispatcher_Send c m k d"

section \<open>A specification of the verification-key resolver\<close>

text \<open>
  The resolution order as the specification words it, to be compared with \<open>getVerKey\<close>:
  the key is the first recipient key of the service block of the stored out-of-band
  invitation when that invitation is found and has the out-of-band type; when the lookup
  reports ``not found'' or the type differs, the invitation is \<open>{ID = id, DID = id}\<close> for
  an id that starts with \<open>did:\<close> and the stored legacy invitation otherwise, and the key
  is the first recipient key of the destination of the resolved DID when the invitation
  has a DID, and the invitation's first recipient key when it has none.
\<close>

definition oob_falls_back :: "pkg \<Rightarrow> 'kh ctx \<Rightarrow> string \<Rightarrow> bool" where
  "oob_falls_back P c invitationID =
     (case GetOOBInvitation c invitationID of
        Inl e \<Rightarrow> is_ErrDataNotFound e
      | Inr invitation \<Rightarrow> oob_Type invitation \<noteq> oobMsgType P)"

inductive fallback_invitation :: "'kh ctx \<Rightarrow> string \<Rightarrow> Invitation \<Rightarrow> bool" for c invitationID where
  synthesised:
    "take 4 invitationID = ''did:'' \<Longrightarrow>
     fallback_invitation c invitationID
       \<lparr>inv_ID = invitationID, inv_DID = invitationID, inv_RecipientKeys = [],
        inv_ServiceEndpoint = [], inv_RoutingKeys = []\<rparr>"
| legacy:
    "take 4 invitationID \<noteq> ''did:'' \<Longrightarrow> GetInvitation c invitationID = Inr invitation \<Longrightarrow>
     fallback_invitation c invitationID invitation"

inductive getVerKey_spec :: "pkg \<Rightarrow> 'kh ctx \<Rightarrow> string \<Rightarrow> string \<Rightarrow> bool" for P c invitationID where
  from_oob:
    "GetOOBInvitation c invitationID = Inr invitation \<Longrightarrow> oob_Type invitation = oobMsgType P \<Longrightarrow>
     getServiceBlock P c invitation = Inr svc \<Longrightarrow> svc_RecipientKeys svc = key # keys \<Longrightarrow>
     getVerKey_spec P c invitationID key"
| from_did:
    "oob_falls_back P c invitationID \<Longrightarrow> fallback_invitation c invitationID invitation \<Longrightarrow>
     inv_DID invitation \<noteq> [] \<Longrightarrow> vdr_Resolve c (inv_DID invitation) = Inr doc \<Longrightarrow>
     CreateDestination P doc = Inr dest \<Longrightarrow> dest_RecipientKeys dest = key # keys \<Longrightarrow>
     getVerKey_spec P c invitationID key"
| from_keys:
    "oob_falls_back P c invitationID \<Longrightarrow> fallback_invitation c invitationID invitation \<Longrightarrow>
     inv_DID invitation = [] \<Longrightarrow> inv_RecipientKeys invitation = key # keys \<Longrightarrow>
     getVerKey_spec P c invitationID key"

section \<open>Assumptions on the libraries\<close>

text \<open>
  What the round trip of a connection signature needs of the libraries: base64url
  decoding inverts encoding, JSON decoding inverts the encoding of the connection at
  hand (whose encoding is not empty), and the verifier of the suite accepts what the
  crypto provider signs with the key handle that the key manager keeps for the public
  key of the did:key \<open>K\<close>.
\<close>

definition base64_inverts :: "pkg \<Rightarrow> bool" where
  "base64_inverts P =
     (\<forall>bs. URLEncoding_DecodeString P (URLEncoding_EncodeToString P bs) = Inr bs)"

definition json_inverts :: "pkg \<Rightarrow> Connection \<Rightarrow> bool" where
  "json_inverts P conn =
     (\<forall>j. json_Marshal P conn = Inr j \<longrightarrow> j \<noteq> [] \<and> json_Unmarshal P j = Inr conn)"

definition verify_accepts_sign :: "pkg \<Rightarrow> 'kh ctx \<Rightarrow> string \<Rightarrow> bool" where
  "verify_accepts_sign P c K =
     (\<forall>pk kid kh m s.
        PubKeyFromDIDKey P K = Inr pk \<longrightarrow> CreateKID P pk ED25519Type = Inr kid \<longrightarrow>
        kms_Get c kid = Inr kh \<longrightarrow> crypto_Sign c m kh = Inr s \<longrightarrow>
        suite_Verify P pk m s = None)"

text \<open>
  Whether the type switch of a state's \<open>ExecuteInbound\<close> has a case for a message type.
  Null, NoOp and Abandoned have no such switch: they treat every type alike.
\<close>

fun legal_msg_type :: "pkg \<Rightarrow> state \<Rightarrow> string \<Rightarrow> bool" where
  "legal_msg_type P Invited t = (t = InvitationMsgType P \<or> t = oobMsgType P)"
| "legal_msg_type P Requested t =
     (t = oobMsgType P \<or> t = InvitationMsgType P \<or> t = RequestMsgType P)"
| "legal_msg_type P Responded t =
     (t = RequestMsgType P \<or> t = ResponseMsgType P \<or> t = CompleteMsgType P)"
| "legal_msg_type P Completed t =
     (t = ResponseMsgType P \<or> t = AckMsgType P \<or> t = CompleteMsgType P)"
| "legal_msg_type P s t = True"

section \<open>An instance of the collaborators\<close>

text \<open>
  A small instance of the parameters, on which the model runs on concrete inputs.  Its
  base64 is the base64url encoding with padding of RFC 4648 (the decoder skips CR and LF
  and wants every quantum complete, as Go's does).  The rest are stand-ins in the way of
  the mocks of the package's tests: a JSON codec for connections without an embedded
  document whose DID needs no escaping, \<open>did:key:\<close> followed by the key bytes as key
  format, and a signature that is the key followed by the message.
\<close>

definition encodeURL :: string where
  "encodeURL = ''ABCDEFGHIJKLMNOPQRSTUVWXYZabcdefghijklmnopqrstuvwxyz0123456789-_''"

definition sextet_char :: "nat \<Rightarrow> char" where
  "sextet_char n = encodeURL ! n"

fun index_of :: "char \<Rightarrow> string \<Rightarrow> nat \<Rightarrow> nat option" where
  "index_of ch [] i = None"
| "index_of ch (x # xs) i = (if x = ch then Some i else index_of ch xs (Suc i))"

definition char_sextet :: "char \<Rightarrow> nat option" where
  "char_sextet ch = index_of ch encodeURL 0"

definition split1 :: "byte \<Rightarrow> nat" where "split1 a = unat a div 4"
definition split2 :: "byte \<Rightarrow> byte \<Rightarrow> nat" where "split2 a b = (unat a mod 4) * 16 + unat b div 16"
definition split3 :: "byte \<Rightarrow> byte \<Rightarrow> nat" where "split3 b c = (unat b mod 16) * 4 + unat c div 64"
definition split4 :: "byte \<Rightarrow> nat" where "split4 c = unat c mod 64"

definition join1 :: "nat \<Rightarrow> nat \<Rightarrow> byte" where "join1 s1 s2 = of_nat (s1 * 4 + s2 div 16)"
definition join2 :: "nat \<Rightarrow> nat \<Rightarrow> byte" where "join2 s2 s3 = of_nat ((s2 mod 16) * 16 + s3 div 4)"
definition join3 :: "nat \<Rightarrow> nat \<Rightarrow> byte" where "join3 s3 s4 = of_nat ((s3 mod 4) * 64 + s4)"

fun b64_encode :: "byte list \<Rightarrow> string" where
  "b64_encode (a # b # c # rest) =
     [sextet_char (split1 a), sextet_char (split2 a b), sextet_char (split3 b c),
      sextet_char (split4 c)] @ b64_encode rest"
| "b64_encode [a, b] =
     [sextet_char (split1 a), sextet_char (split2 a b), sextet_char (split3 b 0), CHR ''='']"
| "b64_encode [a] =
     [sextet_char (split1 a), sextet_char (split2 a 0), CHR ''='', CHR ''='']"
| "b64_encode [] = []"

definition corrupt :: ext_error where
  "corrupt = ExtError False ''illegal base64 data''"

fun b64_quanta :: "string \<Rightarrow> ext_error + byte list" where
  "b64_quanta (c1 # c2 # c3 # c4 # rest) =
     (case (char_sextet c1, char_sextet c2) of
        (Some s1, Some s2) \<Rightarrow>
          (if c3 = CHR ''='' then
             (if c4 = CHR ''='' \<and> rest = [] then Inr [join1 s1 s2] else Inl corrupt)
           else
             (case char_sextet c3 of
                None \<Rightarrow> Inl corrupt
              | Some s3 \<Rightarrow>
                  (if c4 = CHR ''='' then
                     (if rest = [] then Inr [join1 s1 s2, join2 s2 s3] else Inl corrupt)
                   else
                     (case char_sextet c4 of
                        None \<Rightarrow> Inl corrupt
                      | Some s4 \<Rightarrow>
                          (case b64_quanta rest of
                             Inl e \<Rightarrow> Inl e
                           | Inr bs \<Rightarrow> Inr (join1 s1 s2 # join2 s2 s3 # join3 s3 s4 # bs))))))
      | _ \<Rightarrow> Inl corrupt)"
| "b64_quanta [] = Inr []"
| "b64_quanta cs = Inl corrupt"

definition b64_decode :: "string \<Rightarrow> ext_error + byte list" where
  "b64_decode s = b64_quanta (filter (\<lambda>ch. ch \<noteq> CHR 0x0D \<and> ch \<noteq> CHR 0x0A) s)"

definition bytes_of :: "string \<Rightarrow> byte list" where
  "bytes_of s = map (\<lambda>ch. of_nat (of_char ch)) s"

definition string_of :: "byte list \<Rightarrow> string" where
  "string_of bs = map (\<lambda>b. char_of (unat b)) bs"

definition plain_char :: "char \<Rightarrow> bool" where
  "plain_char ch =
     (32 \<le> (of_char ch :: nat) \<and> (of_char ch :: nat) < 127 \<and>
      ch \<notin> {CHR 0x22, CHR 0x5C, CHR ''<'', CHR ''>'', CHR ''&''})"

definition json_prefix :: string where
  "json_prefix = [CHR ''{'', CHR 0x22] @ ''DID'' @ [CHR 0x22, CHR '':'', CHR 0x22]"

definition json_suffix :: string where
  "json_suffix = [CHR 0x22, CHR ''}'']"

definition unsupported :: ext_error where
  "unsupported = ExtError False ''not supported by the example''"

definition example_json_Marshal :: "Connection \<Rightarrow> ext_error + byte list" where
  "example_json_Marshal conn =
     (if conn_DIDDoc conn \<noteq> None \<or> \<not> list_all plain_char (conn_DID conn) then Inl unsupported
      else if conn_DID conn = [] then Inr (bytes_of ''{}'')
      else Inr (bytes_of (json_prefix @ conn_DID conn @ json_suffix)))"

definition example_json_Unmarshal :: "byte list \<Rightarrow> ext_error + Connection" where
  "example_json_Unmarshal bs =
     (let s = string_of bs;
          body = drop (length json_prefix) (take (length s - length json_suffix) s) in
      if s = ''{}'' then Inr \<lparr>conn_DID = [], conn_DIDDoc = None\<rparr>
      else if length json_prefix + length json_suffix < length s \<and>
              take (length json_prefix) s = json_prefix \<and>
              drop (length s - length json_suffix) s = json_suffix \<and> list_all plain_char body
      then Inr \<lparr>conn_DID = body, conn_DIDDoc = None\<rparr>
      else Inl (ExtError False ''invalid JSON for a connection''))"

definition example_PubKeyFromDIDKey :: "string \<Rightarrow> ext_error + byte list" where
  "example_PubKeyFromDIDKey k =
     (if take 8 k = ''did:key:'' \<and> 8 < length k then Inr (bytes_of (drop 8 k))
      else Inl (ExtError False ''not a did:key''))"

definition example_Verify :: "byte list \<Rightarrow> byte list \<Rightarrow> byte list \<Rightarrow> ext_error option" where
  "example_Verify pubKey doc signature =
     (if signature = pubKey @ doc then None else Some (ExtError False ''invalid signature''))"

definition service_destination :: "Service \<Rightarrow> Destination" where
  "service_destination s =
     \<lparr>dest_RecipientKeys = svc_RecipientKeys s, dest_ServiceEndpoint = svc_ServiceEndpoint s,
      dest_RoutingKeys = svc_RoutingKeys s, dest_MediaTypeProfiles = svc_Accept s\<rparr>"

definition example_pkg :: pkg where
  "example_pkg =
     \<lparr>InvitationMsgType = ''invitation'', oobMsgType = ''oob-invitation'',
      RequestMsgType = ''request'', ResponseMsgType = ''response'', AckMsgType = ''ack'',
      CompleteMsgType = ''complete'', myNSPrefix = ''my'',
      json_Marshal = example_json_Marshal, json_Unmarshal = example_json_Unmarshal,
      URLEncoding_EncodeToString = b64_encode, URLEncoding_DecodeString = b64_decode,
      StdEncoding_EncodeToString = b64_encode,
      PubKeyFromDIDKey = example_PubKeyFromDIDKey,
      CreateKID = (\<lambda>pk kt. Inr (string_of pk)),
      suite_Verify = example_Verify,
      ParsePKIXPublicKey = (\<lambda>bs. Inl unsupported),
      CreateDestination =
        (\<lambda>doc. case doc_Service doc of [] \<Rightarrow> Inl unsupported | s # _ \<Rightarrow> Inr (service_destination s)),
      LookupService = (\<lambda>doc t. case doc_Service doc of [] \<Rightarrow> None | s # _ \<Rightarrow> Some s),
      did_Parse = (\<lambda>d. Inr ''peer''),
      convertPeerToSov = Inr,
      SerializeInterop = (\<lambda>doc. Inr []),
      getRequestConnection =
        (\<lambda>r. case req_Connection r of None \<Rightarrow> Inl unsupported | Some conn \<Rightarrow> Inr conn),
      CreateNamespaceKey = (\<lambda>prefix thid. Inr (prefix @ ''_'' @ thid)),
      mapstructure_NewDecoder = None,
      mapstructure_Decode = (\<lambda>m. Inl unsupported)\<rparr>"

definition not_found :: ext_error where
  "not_found = ExtError True ''data not found''"

definition example_doc :: "string \<Rightarrow> Doc" where
  "example_doc d =
     \<lparr>doc_ID = d,
      doc_Service = [\<lparr>svc_RecipientKeys = [''did:key:K2''], svc_RoutingKeys = [],
                      svc_ServiceEndpoint = ''http://y'', svc_Accept = []\<rparr>],
      doc_VerificationMethod = [], doc_Authentication = []\<rparr>"

text \<open>
  The store of the example holds one legacy invitation, \<open>inv-1\<close>, with the recipient key
  \<open>did:key:K1\<close>; read into an out-of-band invitation it shows the legacy type.  The
  registry resolves every DID that starts with \<open>did:peer:\<close>.  A key handle is the key.
\<close>

definition example_ctx :: "byte list ctx" where
  "example_ctx =
     \<lparr>doACAPyInterop = False,
      vdr_Resolve = (\<lambda>d. if take 9 d = ''did:peer:'' then Inr (example_doc d) else Inl not_found),
      vdr_Create = (\<lambda>method doc store. Inr doc),
      SaveDIDFromDoc = (\<lambda>doc. None),
      GetInvitation =
        (\<lambda>i. if i = ''inv-1''
              then Inr \<lparr>inv_ID = ''inv-1'', inv_DID = [], inv_RecipientKeys = [''did:key:K1''],
                        inv_ServiceEndpoint = ''http://x'', inv_RoutingKeys = []\<rparr>
              else Inl not_found),
      GetOOBInvitation =
        (\<lambda>i. if i = ''inv-1''
              then Inr \<lparr>oob_Type = ''invitation'', oob_MyLabel = [], oob_Target = TargetOther ''<nil>'',
                        oob_MediaTypeProfiles = []\<rparr>
              else Inl not_found),
      GetConnectionRecordByNSThreadID = (\<lambda>k. Inl not_found),
      kms_Get = (\<lambda>kid. Inr (bytes_of kid)),
      kms_CreateAndExportPubKeyBytes = (\<lambda>kt. Inr (''k1'', [1, 2, 3])),
      crypto_Sign = (\<lambda>m kh. Inr (kh @ m)),
      attach_Verify = (\<lambda>d. None),
      attach_Sign = (\<lambda>d kh pk. Inr d),
      GetRouterConfig = (\<lambda>connID. Inl not_found),
      AddKeyToRouter = (\<lambda>connID key. None),
      GetDestination = (\<lambda>d. Inl not_found),
      outboundDispatcher_Send = (\<lambda>m k d. None),
      uuid_New = ''uuid-1'',
      time_Now_Unix = 1000000000\<rparr>"

definition example_conn :: Connection where
  "example_conn = \<lparr>conn_DID = ''did:peer:abc'', conn_DIDDoc = None\<rparr>"

definition example_timestamp :: "byte list" where
  "example_timestamp = PutUint64 (word_of_int 1000000000)"

definition example_sigData :: "byte list" where
  "example_sigData = example_timestamp @ bytes_of (json_prefix @ ''did:peer:abc'' @ json_suffix)"

definition example_signature :: ConnectionSignature where
  "example_signature =
     \<lparr>sig_Type = signature_type, sig_SignedData = b64_encode example_sigData,
      sig_SignVerKey = ''did:key:K1'',
      sig_Signature = b64_encode (bytes_of ''K1'' @ example_sigData)\<rparr>"

text \<open>A signature over no data at all, and a signed timestamp with no connection after it.\<close>

definition empty_signature :: ConnectionSignature where
  "empty_signature =
     \<lparr>sig_Type = signature_type, sig_SignedData = [], sig_SignVerKey = ''did:key:K1'',
      sig_Signature = []\<rparr>"

definition timestamp_signature :: ConnectionSignature where
  "timestamp_signature =
     \<lparr>sig_Type = signature_type, sig_SignedData = b64_encode example_timestamp,
      sig_SignVerKey = ''did:key:K1'',
      sig_Signature = b64_encode (bytes_of ''K1'' @ example_timestamp)\<rparr>"

text \<open>
  A message of a given type whose body decodes into none of the message structs, a
  request that carries a connection and no thread decorator, and options that name a
  public DID.
\<close>

definition example_msg :: "string \<Rightarrow> stateMachineMsg" where
  "example_msg t =
     \<lparr>msg_Type = t, msg_Decode_Invitation = Inl unsupported,
      msg_Decode_OOBInvitation = Inl unsupported, msg_Decode_Request = Inl unsupported,
      msg_Decode_Response = Inl unsupported, msg_Decode_Complete = Some unsupported,
      msg_connRecord = Some Record_zero, msg_options = None\<rparr>"

definition example_request :: Request where
  "example_request =
     \<lparr>req_Type = ''request'', req_ID = ''t-1'', req_Label = ''alice'',
      req_Connection = Some example_conn, req_Thread = None, req_DocAttach = None\<rparr>"

definition example_options :: options where
  "example_options =
     \<lparr>opt_publicDID = ''did:peer:pub'', opt_routerConnections = [], opt_label = ''bob''\<rparr>"

section \<open>Predicates on the results of ExecuteInbound\<close>

text \<open>
  A result that, when it is an error return, carries no record, no next state and no
  action; and a result that, when it is a successful return, carries an action whose
  call dispatches at most one message.
\<close>

definition carries_nothing :: "panic + exec_result \<Rightarrow> bool" where
  "carries_nothing res =
     (\<forall>r n a e. res = Inr (r, n, a, Some e) \<longrightarrow> r = None \<and> n = None \<and> a = None)"

definition has_action :: "panic + exec_result \<Rightarrow> bool" where
  "has_action res =
     (\<forall>r n a. res = Inr (r, n, a, None) \<longrightarrow> (\<exists>act. a = Some act \<and> length (dispatches act) \<le> 1))"

section \<open>Properties\<close>

subsection \<open>The transition table\<close>

text \<open>
  C1. \<open>CanTransitionTo\<close> of the seven state objects is exactly the declared successor
  table: Null allows Invited and Requested, Invited allows Requested, Requested allows
  Responded, Responded allows Completed, and Completed, Abandoned and NoOp allow no
  successor.
\<close>

theorem CanTransitionTo_table:
  "CanTransitionTo s s' =
     ((s = Null \<and> s' \<in> {Invited, Requested}) \<or> (s = Invited \<and> s' = Requested) \<or>
      (s = Requested \<and> s' = Responded) \<or> (s = Responded \<and> s' = Completed))"
  by (cases s; cases s') (simp_all add: state_names)

theorem CanTransitionTo_table_witness:
  "CanTransitionTo Null Invited \<and> CanTransitionTo Null Requested \<and>
   \<not> CanTransitionTo Null Responded \<and> \<not> CanTransitionTo Completed Abandoned \<and>
   \<not> CanTransitionTo NoOp Invited \<and> CanTransitionTo Responded Completed"
  using CanTransitionTo_table [of Null Invited] CanTransitionTo_table [of Null Requested]
    CanTransitionTo_table [of Null Responded] CanTransitionTo_table [of Completed Abandoned]
    CanTransitionTo_table [of NoOp Invited] CanTransitionTo_table [of Responded Completed]
  by simp

subsection \<open>State names\<close>

text \<open>
  C9. For each of the seven state objects, \<open>stateFromName\<close> of the state's name succeeds
  and returns that state.
\<close>

theorem stateFromName_Name: "stateFromName (Name s) = Inr s"
  by (cases s) (simp_all add: stateFromName_def state_names)

theorem stateFromName_Name_witness:
  "stateFromName (Name Abandoned) = Inr Abandoned \<and> stateFromName ''noop'' = Inr NoOp"
  using stateFromName_Name [of Abandoned] stateFromName_Name [of NoOp]
  by (simp add: state_names)

subsection \<open>Results of the error plumbing\<close>

lemma bind_f_Inr_iff: "bind_f r k = Inr v \<longleftrightarrow> (\<exists>x. r = Inr x \<and> k x = Inr v)"
  by (cases r) simp_all

lemma wrapf_Inr_iff: "wrapf p r = Inr v \<longleftrightarrow> r = Inr v"
  by (cases "(p, r)" rule: wrapf.cases) simp_all

lemma ext_Inr_iff: "ext r = Inr v \<longleftrightarrow> r = Inr v"
  by (cases r) simp_all

lemma ext_check_Inr_iff: "ext_check r = Inr v \<longleftrightarrow> r = None"
  by (cases r) simp_all

lemmas Inr_iffs = bind_f_Inr_iff wrapf_Inr_iff ext_Inr_iff ext_check_Inr_iff

lemma length_PutUint64: "length (PutUint64 v) = 8"
  by (simp add: PutUint64_def)

lemma Uint64_PutUint64: "Uint64 (PutUint64 v) = v"
  unfolding PutUint64_def Uint64.simps
  apply (rule bit_word_eqI)
  apply (simp add: bit_simps less_diff_conv2 cong: conj_cong)
  apply (case_tac "bit v n"; simp)
  apply linarith
  done

lemma prepareConnectionSignature_Inr:
  assumes "prepareConnectionSignature P c conn invitationID = Inr cs"
  obtains j didKey pk kid kh s where
    "json_Marshal P conn = Inr j" "getVerKey P c invitationID = Inr didKey"
    "PubKeyFromDIDKey P didKey = Inr pk" "CreateKID P pk ED25519Type = Inr kid"
    "kms_Get c kid = Inr kh"
    "crypto_Sign c (PutUint64 (word_of_int (time_Now_Unix c)) @ j) kh = Inr s"
    "cs = \<lparr>sig_Type = signature_type,
           sig_SignedData = URLEncoding_EncodeToString P (PutUint64 (word_of_int (time_Now_Unix c)) @ j),
           sig_SignVerKey = didKey,
           sig_Signature = URLEncoding_EncodeToString P s\<rparr>"
  using assms
  by (auto simp: prepareConnectionSignature_def Let_def getEpochTime_def Inr_iffs)

lemma verifySignature_accepts:
  assumes "URLEncoding_DecodeString P (sig_SignedData cs) = Inr (ts @ j)"
    and "length ts = 8" and "j \<noteq> []"
    and "URLEncoding_DecodeString P (sig_Signature cs) = Inr s"
    and "PubKeyFromDIDKey P K = Inr pk"
    and "suite_Verify P pk (ts @ j) s = None"
  shows "verifySignature P (Some cs) K = wrapf ''JSON unmarshalling of connection: '' (ext (json_Unmarshal P j))"
  using assms by (simp add: verifySignature_def timestamplen_def)

lemma roundtrip:
  assumes signed: "prepareConnectionSignature P c conn invitationID = Inr cs"
    and b64: "base64_inverts P"
    and json: "json_inverts P conn"
    and crypto: "verify_accepts_sign P c (sig_SignVerKey cs)"
  shows "getVerKey P c invitationID = Inr (sig_SignVerKey cs)"
    and "verifySignature P (Some cs) (sig_SignVerKey cs) = Inr conn"
    and "\<exists>j. json_Marshal P conn = Inr j \<and> j \<noteq> [] \<and>
           sig_SignedData cs = URLEncoding_EncodeToString P (PutUint64 (word_of_int (time_Now_Unix c)) @ j) \<and>
           URLEncoding_DecodeString P (sig_SignedData cs) = Inr (PutUint64 (word_of_int (time_Now_Unix c)) @ j)"
proof -
  from signed obtain j didKey pk kid kh s where
    j: "json_Marshal P conn = Inr j" and key: "getVerKey P c invitationID = Inr didKey" and
    pk: "PubKeyFromDIDKey P didKey = Inr pk" and kid: "CreateKID P pk ED25519Type = Inr kid" and
    kh: "kms_Get c kid = Inr kh" and
    s: "crypto_Sign c (PutUint64 (word_of_int (time_Now_Unix c)) @ j) kh = Inr s" and
    cs: "cs = \<lparr>sig_Type = signature_type,
           sig_SignedData = URLEncoding_EncodeToString P (PutUint64 (word_of_int (time_Now_Unix c)) @ j),
           sig_SignVerKey = didKey,
           sig_Signature = URLEncoding_EncodeToString P s\<rparr>"
    by (rule prepareConnectionSignature_Inr)
  let ?ts = "PutUint64 (word_of_int (time_Now_Unix c))"
  have K: "sig_SignVerKey cs = didKey" by (simp add: cs)
  have d1: "URLEncoding_DecodeString P (sig_SignedData cs) = Inr (?ts @ j)"
    using b64 by (simp add: cs base64_inverts_def)
  have d2: "URLEncoding_DecodeString P (sig_Signature cs) = Inr s"
    using b64 by (simp add: cs base64_inverts_def)
  have jne: "j \<noteq> []" and un: "json_Unmarshal P j = Inr conn"
    using json j by (simp_all add: json_inverts_def)
  have v: "suite_Verify P pk (?ts @ j) s = None"
    using crypto pk kid kh s unfolding verify_accepts_sign_def K by blast
  show "getVerKey P c invitationID = Inr (sig_SignVerKey cs)"
    by (simp add: K key)
  show "verifySignature P (Some cs) (sig_SignVerKey cs) = Inr conn"
    unfolding K
    by (simp add: verifySignature_accepts [OF d1 length_PutUint64 jne d2 pk v] un)
  show "\<exists>j. json_Marshal P conn = Inr j \<and> j \<noteq> [] \<and>
           sig_SignedData cs = URLEncoding_EncodeToString P (?ts @ j) \<and>
           URLEncoding_DecodeString P (sig_SignedData cs) = Inr (?ts @ j)"
    using j jne d1 by (simp add: cs)
qed

subsection \<open>Facts of the example instance\<close>

lemma sextet_table:
  "\<forall>n \<in> set [0..<64]. char_sextet (sextet_char n) = Some n \<and> sextet_char n \<noteq> CHR ''=''
      \<and> sextet_char n \<noteq> CHR 0x0D \<and> sextet_char n \<noteq> CHR 0x0A"
  by code_simp

lemma sextet_inv:
  assumes "n < 64"
  shows "char_sextet (sextet_char n) = Some n" and "sextet_char n \<noteq> CHR ''=''"
    and "sextet_char n \<noteq> CHR 0x0D" and "sextet_char n \<noteq> CHR 0x0A"
  using assms sextet_table by auto

lemma byte_less: "unat (a :: byte) < 256"
  using unsigned_less [of a] by simp

lemma div_bounds:
  "unat (a :: byte) div 4 < 64" "unat (a :: byte) div 16 < 16" "unat (a :: byte) div 64 < 4"
  using byte_less [of a] by (simp_all add: less_mult_imp_div_less)

lemma split_bounds: "split1 a < 64" "split2 a b < 64" "split3 b c < 64" "split4 c < 64"
proof -
  show "split1 a < 64" unfolding split1_def by (rule div_bounds)
  have "unat a mod 4 < 4" by simp
  with div_bounds(2) [of b] show "split2 a b < 64" unfolding split2_def by linarith
  have "unat b mod 16 < 16" by simp
  with div_bounds(3) [of c] show "split3 b c < 64" unfolding split3_def by linarith
  show "split4 c < 64" unfolding split4_def by simp
qed

lemma join1_split: "join1 (split1 a) (split2 a b) = a"
proof -
  have "((unat a mod 4) * 16 + unat b div 16) div 16 = unat a mod 4"
    using div_bounds(2) [of b] by simp
  then have "unat a div 4 * 4 + ((unat a mod 4) * 16 + unat b div 16) div 16 = unat a"
    by simp
  then show ?thesis unfolding join1_def split1_def split2_def by simp
qed

lemma join2_split: "join2 (split2 a b) (split3 b c) = b"
proof -
  have 1: "((unat a mod 4) * 16 + unat b div 16) mod 16 = unat b div 16"
    using div_bounds(2) [of b] by simp
  have 2: "((unat b mod 16) * 4 + unat c div 64) div 4 = unat b mod 16"
    using div_bounds(3) [of c] by simp
  have "(((unat a mod 4) * 16 + unat b div 16) mod 16) * 16 +
          ((unat b mod 16) * 4 + unat c div 64) div 4 = unat b"
    unfolding 1 2 by simp
  then show ?thesis unfolding join2_def split2_def split3_def by simp
qed

lemma join3_split: "join3 (split3 b c) (split4 c) = c"
proof -
  have 1: "((unat b mod 16) * 4 + unat c div 64) mod 4 = unat c div 64"
    using div_bounds(3) [of c] by simp
  have "(((unat b mod 16) * 4 + unat c div 64) mod 4) * 64 + unat c mod 64 = unat c"
    unfolding 1 by simp
  then show ?thesis unfolding join3_def split3_def split4_def by simp
qed

lemma b64_encode_no_newline:
  "filter (\<lambda>ch. ch \<noteq> CHR 0x0D \<and> ch \<noteq> CHR 0x0A) (b64_encode bs) = b64_encode bs"
  by (induction bs rule: b64_encode.induct) (simp_all add: sextet_inv split_bounds)

lemma b64_quanta_encode: "b64_quanta (b64_encode bs) = Inr bs"
  by (induction bs rule: b64_encode.induct)
    (simp_all add: sextet_inv split_bounds join1_split join2_split join3_split)

lemma b64_decode_encode: "b64_decode (b64_encode bs) = Inr bs"
  by (simp add: b64_decode_def b64_encode_no_newline b64_quanta_encode)

lemma example_base64: "base64_inverts example_pkg"
  by (simp add: base64_inverts_def example_pkg_def b64_decode_encode)

lemma string_of_bytes_of: "string_of (bytes_of s) = s"
  by (induction s) (simp_all add: string_of_def bytes_of_def unat_of_nat)

lemma example_json: "json_inverts example_pkg example_conn"
  by (simp add: json_inverts_def example_pkg_def example_conn_def example_json_Marshal_def
      example_json_Unmarshal_def plain_char_def string_of_bytes_of json_prefix_def
      json_suffix_def Let_def)
     (simp add: bytes_of_def)

lemma example_crypto: "verify_accepts_sign example_pkg example_ctx K"
  by (auto simp: verify_accepts_sign_def example_pkg_def example_ctx_def example_Verify_def
      example_PubKeyFromDIDKey_def string_of_bytes_of split: if_splits)

lemma example_getVerKey: "getVerKey example_pkg example_ctx ''inv-1'' = Inr ''did:key:K1''"
  by (simp add: getVerKey_def getVerKeyFromOOBInvitation_def example_ctx_def example_pkg_def
      isDID_def getInvitationRecipientKey_def)

lemma example_signed:
  "prepareConnectionSignature example_pkg example_ctx example_conn ''inv-1'' = Inr example_signature"
  by (simp add: prepareConnectionSignature_def example_getVerKey getEpochTime_def Let_def)
     (simp add: example_pkg_def example_ctx_def example_conn_def example_json_Marshal_def
        plain_char_def example_PubKeyFromDIDKey_def string_of_bytes_of example_signature_def
        example_sigData_def example_timestamp_def)


subsection \<open>The connection-signature codec\<close>

lemma signed_key:
  assumes "prepareConnectionSignature P c conn invitationID = Inr cs"
  shows "getVerKey P c invitationID = Inr (sig_SignVerKey cs)"
  using assms by (rule prepareConnectionSignature_Inr) simp

text \<open>
  C2. Signing then verifying returns the connection.  For every connection \<open>conn\<close> for
  which \<open>prepareConnectionSignature\<close> succeeds, and the invitation recipient key \<open>K\<close> that
  \<open>getVerKey\<close> resolves for the invitation, \<open>verifySignature\<close> of the produced signature
  with \<open>K\<close> returns a connection equal to \<open>conn\<close>, and the decoded \<open>SignedData\<close> is longer
  than 8 bytes.  Assumed of the libraries: base64url decoding inverts encoding, JSON
  decoding inverts the encoding of \<open>conn\<close>, and the verifier accepts what the crypto
  provider signs with the key of \<open>K\<close>.
\<close>

theorem sign_verify_roundtrip:
  assumes "prepareConnectionSignature P c conn invitationID = Inr cs"
    and "getVerKey P c invitationID = Inr K"
    and "base64_inverts P" and "json_inverts P conn" and "verify_accepts_sign P c K"
  shows "verifySignature P (Some cs) K = Inr conn \<and>
         (\<exists>sigData. URLEncoding_DecodeString P (sig_SignedData cs) = Inr sigData \<and>
                    8 < length sigData)"
proof -
  have K: "sig_SignVerKey cs = K"
    using signed_key [OF assms(1)] assms(2) by simp
  have "verifySignature P (Some cs) K = Inr conn"
    using roundtrip(2) [OF assms(1,3,4)] assms(5) by (simp add: K)
  moreover from roundtrip(3) [OF assms(1,3,4)] assms(5) obtain j where
    "j \<noteq> []" "URLEncoding_DecodeString P (sig_SignedData cs) =
       Inr (PutUint64 (word_of_int (time_Now_Unix c)) @ j)"
    by (auto simp: K)
  then have "\<exists>sigData. URLEncoding_DecodeString P (sig_SignedData cs) = Inr sigData \<and>
               8 < length sigData"
    by (cases j) (simp_all add: length_PutUint64)
  ultimately show ?thesis by simp
qed

theorem sign_verify_roundtrip_witness:
  "prepareConnectionSignature example_pkg example_ctx example_conn ''inv-1'' = Inr example_signature \<and>
   verifySignature example_pkg (Some example_signature) ''did:key:K1'' = Inr example_conn \<and>
   (\<exists>sigData. URLEncoding_DecodeString example_pkg (sig_SignedData example_signature) = Inr sigData \<and>
              8 < length sigData)"
  using sign_verify_roundtrip [OF example_signed example_getVerKey example_base64 example_json
      example_crypto] example_signed
  by simp

lemma verifySignature_fields:
  assumes "sig_SignedData cs = sig_SignedData cs'" and "sig_Signature cs = sig_Signature cs'"
  shows "verifySignature P (Some cs) K = verifySignature P (Some cs') K"
  by (simp add: verifySignature_def assms cong: if_cong)

text \<open>
  C3. The result of \<open>verifySignature\<close> depends on the signature only through its
  \<open>SignedData\<close> and \<open>Signature\<close> fields: two signatures that agree on both give the same
  result with every recipient key, so changing \<open>SignVerKey\<close> alone changes nothing; the
  same holds of \<open>handleInboundResponse\<close>, which verifies against the first recipient key
  of the loaded connection record.
\<close>

theorem verifySignature_ignores_SignVerKey:
  "(sig_SignedData cs = sig_SignedData cs' \<longrightarrow> sig_Signature cs = sig_Signature cs' \<longrightarrow>
      verifySignature P (Some cs) K = verifySignature P (Some cs') K) \<and>
   verifySignature P (Some (cs\<lparr>sig_SignVerKey := k\<rparr>)) K = verifySignature P (Some cs) K \<and>
   handleInboundResponse P c (response\<lparr>resp_ConnectionSignature := Some (cs\<lparr>sig_SignVerKey := k\<rparr>)\<rparr>) =
     handleInboundResponse P c (response\<lparr>resp_ConnectionSignature := Some cs\<rparr>)"
proof -
  have same: "verifySignature P (Some (cs\<lparr>sig_SignVerKey := k\<rparr>)) K' = verifySignature P (Some cs) K'"
    for K'
    by (rule verifySignature_fields) simp_all
  have "sig_SignedData cs = sig_SignedData cs' \<longrightarrow> sig_Signature cs = sig_Signature cs' \<longrightarrow>
      verifySignature P (Some cs) K = verifySignature P (Some cs') K"
    using verifySignature_fields [of cs cs' P K] by blast
  moreover have "handleInboundResponse P c
        (response\<lparr>resp_ConnectionSignature := Some (cs\<lparr>sig_SignVerKey := k\<rparr>)\<rparr>) =
      handleInboundResponse P c (response\<lparr>resp_ConnectionSignature := Some cs\<rparr>)"
    by (simp add: handleInboundResponse_def same Let_def cong: option.case_cong)
  ultimately show ?thesis
    using same [of K] by blast
qed

lemma example_sigData_nonempty: "example_sigData \<noteq> []" "\<not> length example_sigData \<le> 8"
  by (simp_all add: example_sigData_def example_timestamp_def length_PutUint64 bytes_of_def
      json_prefix_def)

theorem verifySignature_ignores_SignVerKey_witness:
  "verifySignature example_pkg (Some example_signature) ''did:key:K2'' =
     Inl (Err (Errorf ''verify signature: '' (External (ExtError False ''invalid signature'')))) \<and>
   verifySignature example_pkg (Some (example_signature\<lparr>sig_SignVerKey := ''did:key:K2''\<rparr>)) ''did:key:K2'' =
     Inl (Err (Errorf ''verify signature: '' (External (ExtError False ''invalid signature''))))"
proof -
  have "verifySignature example_pkg (Some example_signature) ''did:key:K2'' =
     Inl (Err (Errorf ''verify signature: '' (External (ExtError False ''invalid signature''))))"
    by (simp add: verifySignature_def example_signature_def example_pkg_def b64_decode_encode
        example_sigData_nonempty example_PubKeyFromDIDKey_def example_Verify_def bytes_of_def)
  with verifySignature_ignores_SignVerKey [of example_signature example_signature example_pkg
      "''did:key:K2''" "''did:key:K2''", THEN conjunct2, THEN conjunct1]
  show ?thesis by simp
qed

lemma verifySignature_short:
  assumes "URLEncoding_DecodeString P (sig_SignedData cs) = Inr sigData" and "length sigData \<le> 8"
  shows "verifySignature P (Some cs) K =
     (if sigData = [] then Inl (Err (New ''missing or invalid signature data''))
      else
        bind_f (wrapf ''decode signature: '' (ext (URLEncoding_DecodeString P (sig_Signature cs))))
          (\<lambda>signature.
        bind_f (wrapf (''verifySignature: failed to parse pubKeyBytes from recipientKeys ['' @ K @ '']: '')
                  (ext (PubKeyFromDIDKey P K)))
          (\<lambda>pubKey.
        bind_f (wrapf ''verify signature: '' (ext_check (suite_Verify P pubKey sigData signature)))
          (\<lambda>_. Inl (Err (New ''missing connection attribute bytes''))))))"
  using assms by (simp add: verifySignature_def timestamplen_def)

text \<open>
  C4, as amended.  When the decoded \<open>SignedData\<close> has at most 8 bytes, \<open>verifySignature\<close>
  returns an error.  For empty data the error is ``missing or invalid signature data''.
  The message is ``missing connection attribute bytes'' exactly when the data is not
  empty, the \<open>Signature\<close> field decodes, the recipient key parses and the signature
  verifies over the data.
\<close>

theorem verifySignature_short_data:
  assumes "URLEncoding_DecodeString P (sig_SignedData cs) = Inr sigData" and "length sigData \<le> 8"
  shows "\<exists>e. verifySignature P (Some cs) K = Inl (Err e) \<and>
           (sigData = [] \<longrightarrow> e = New ''missing or invalid signature data'') \<and>
           (Error_msg e = ''missing connection attribute bytes'' \<longleftrightarrow>
              sigData \<noteq> [] \<and>
              (\<exists>signature pubKey.
                 URLEncoding_DecodeString P (sig_Signature cs) = Inr signature \<and>
                 PubKeyFromDIDKey P K = Inr pubKey \<and>
                 suite_Verify P pubKey sigData signature = None))"
proof (cases "sigData = []")
  case True
  then show ?thesis by (simp add: verifySignature_short [OF assms])
next
  case False
  show ?thesis
  proof (cases "URLEncoding_DecodeString P (sig_Signature cs)")
    case (Inl e)
    with False show ?thesis by (simp add: verifySignature_short [OF assms])
  next
    case s: (Inr signature)
    show ?thesis
    proof (cases "PubKeyFromDIDKey P K")
      case (Inl e)
      with False s show ?thesis by (simp add: verifySignature_short [OF assms])
    next
      case pk: (Inr pubKey)
      show ?thesis
      proof (cases "suite_Verify P pubKey sigData signature")
        case None
        with False s pk show ?thesis by (simp add: verifySignature_short [OF assms])
      next
        case (Some e)
        with False s pk show ?thesis by (simp add: verifySignature_short [OF assms])
      qed
    qed
  qed
qed

lemma timestamp_decodes:
  "URLEncoding_DecodeString example_pkg (sig_SignedData timestamp_signature) = Inr example_timestamp"
  by (simp add: example_pkg_def timestamp_signature_def b64_decode_encode)

lemma timestamp_length: "length example_timestamp \<le> 8"
  by (simp add: example_timestamp_def length_PutUint64)

theorem verifySignature_short_data_witness:
  "URLEncoding_DecodeString example_pkg (sig_SignedData timestamp_signature) = Inr example_timestamp \<and>
   length example_timestamp = 8 \<and>
   (\<exists>e. verifySignature example_pkg (Some timestamp_signature) ''did:key:K1'' = Inl (Err e) \<and>
        Error_msg e = ''missing connection attribute bytes'')"
proof -
  have "example_timestamp \<noteq> []"
    by (simp add: example_timestamp_def PutUint64_def)
  moreover have "\<exists>signature pubKey.
      URLEncoding_DecodeString example_pkg (sig_Signature timestamp_signature) = Inr signature \<and>
      PubKeyFromDIDKey example_pkg ''did:key:K1'' = Inr pubKey \<and>
      suite_Verify example_pkg pubKey example_timestamp signature = None"
    by (simp add: example_pkg_def timestamp_signature_def b64_decode_encode
        example_PubKeyFromDIDKey_def example_Verify_def)
  ultimately show ?thesis
    using verifySignature_short_data [OF timestamp_decodes timestamp_length, of "''did:key:K1''"]
      timestamp_decodes
    by (auto simp: example_timestamp_def length_PutUint64)
qed

text \<open>
  C4 as stated fails for an empty \<open>SignedData\<close>: the error is ``missing or invalid
  signature data'' and not ``missing connection attribute bytes''.
\<close>

theorem verifySignature_empty_data_counterexample:
  "URLEncoding_DecodeString example_pkg (sig_SignedData empty_signature) = Inr [] \<and>
   verifySignature example_pkg (Some empty_signature) ''did:key:K1'' =
     Inl (Err (New ''missing or invalid signature data'')) \<and>
   Error_msg (New ''missing or invalid signature data'') \<noteq> ''missing connection attribute bytes''"
  by (simp add: verifySignature_def empty_signature_def example_pkg_def b64_decode_def)

text \<open>
  C8. The \<open>SignedData\<close> of a signature that \<open>prepareConnectionSignature\<close> returns is the
  base64url encoding of the 8 bytes of the timestamp followed by the JSON of the
  connection; the 8 bytes are the big-endian unsigned encoding of the UNIX time modulo
  \<open>2^64\<close>, at time 1000000000 they are \<open>00 00 00 00 3B 9A CA 00\<close>, and verifying with the key
  of the signature returns the connection (under the assumptions of C2).
\<close>

theorem signed_data_layout:
  assumes "prepareConnectionSignature P c conn invitationID = Inr cs"
  shows "(\<exists>j. json_Marshal P conn = Inr j \<and>
            sig_SignedData cs =
              URLEncoding_EncodeToString P (PutUint64 (word_of_int (time_Now_Unix c)) @ j) \<and>
            (base64_inverts P \<longrightarrow>
               URLEncoding_DecodeString P (sig_SignedData cs) =
                 Inr (PutUint64 (word_of_int (time_Now_Unix c)) @ j))) \<and>
         length (PutUint64 (word_of_int (time_Now_Unix c))) = 8 \<and>
         uint (Uint64 (PutUint64 (word_of_int (time_Now_Unix c)))) = time_Now_Unix c mod 2 ^ 64 \<and>
         (time_Now_Unix c = 1000000000 \<longrightarrow>
            PutUint64 (word_of_int (time_Now_Unix c)) = [0, 0, 0, 0, 0x3B, 0x9A, 0xCA, 0]) \<and>
         (base64_inverts P \<longrightarrow> json_inverts P conn \<longrightarrow> verify_accepts_sign P c (sig_SignVerKey cs) \<longrightarrow>
            verifySignature P (Some cs) (sig_SignVerKey cs) = Inr conn)"
proof -
  from assms obtain j didKey pk kid kh s where
    j: "json_Marshal P conn = Inr j" and
    cs: "cs = \<lparr>sig_Type = signature_type,
           sig_SignedData = URLEncoding_EncodeToString P (PutUint64 (word_of_int (time_Now_Unix c)) @ j),
           sig_SignVerKey = didKey,
           sig_Signature = URLEncoding_EncodeToString P s\<rparr>"
    by (rule prepareConnectionSignature_Inr)
  have "\<exists>j. json_Marshal P conn = Inr j \<and>
            sig_SignedData cs =
              URLEncoding_EncodeToString P (PutUint64 (word_of_int (time_Now_Unix c)) @ j) \<and>
            (base64_inverts P \<longrightarrow>
               URLEncoding_DecodeString P (sig_SignedData cs) =
                 Inr (PutUint64 (word_of_int (time_Now_Unix c)) @ j))"
    using j by (simp add: cs base64_inverts_def)
  moreover have "uint (Uint64 (PutUint64 (word_of_int (time_Now_Unix c)))) = time_Now_Unix c mod 2 ^ 64"
    by (simp add: Uint64_PutUint64 uint_word_of_int)
  moreover have "time_Now_Unix c = 1000000000 \<longrightarrow>
      PutUint64 (word_of_int (time_Now_Unix c)) = [0, 0, 0, 0, 0x3B, 0x9A, 0xCA, 0]"
    by (simp add: PutUint64_def)
  moreover have "base64_inverts P \<longrightarrow> json_inverts P conn \<longrightarrow>
      verify_accepts_sign P c (sig_SignVerKey cs) \<longrightarrow>
      verifySignature P (Some cs) (sig_SignVerKey cs) = Inr conn"
    using roundtrip(2) [OF assms] by blast
  ultimately show ?thesis
    by (simp add: length_PutUint64)
qed

theorem signed_data_layout_witness:
  "prepareConnectionSignature example_pkg example_ctx example_conn ''inv-1'' = Inr example_signature \<and>
   conn_DID example_conn = ''did:peer:abc'' \<and> time_Now_Unix example_ctx = 1000000000 \<and>
   (\<exists>j. URLEncoding_DecodeString example_pkg (sig_SignedData example_signature) =
          Inr ([0, 0, 0, 0, 0x3B, 0x9A, 0xCA, 0] @ j)) \<and>
   verifySignature example_pkg (Some example_signature) (sig_SignVerKey example_signature) = Inr example_conn"
proof -
  have t: "time_Now_Unix example_ctx = 1000000000"
    by (simp add: example_ctx_def)
  have k: "verify_accepts_sign example_pkg example_ctx (sig_SignVerKey example_signature)"
    by (rule example_crypto)
  show ?thesis
    using signed_data_layout [OF example_signed] example_signed example_base64 example_json k t
    by (auto simp: example_conn_def)
qed

subsection \<open>The verification-key resolver\<close>

lemma index0_Inr_iff: "index0 xs = Inr k \<longleftrightarrow> (\<exists>ks. xs = k # ks)"
  by (cases xs) auto

lemma isDID_take: "isDID s \<longleftrightarrow> take 4 s = ''did:''"
  by (simp add: isDID_def Let_def eval_nat_numeral)

lemma getServiceBlock_no_sentinel:
  assumes "getServiceBlock P c i = Inl (Err e)"
  shows "\<not> Is_errVerKeyNotFound e"
proof (cases "oob_Target i")
  case (TargetString svc)
  show ?thesis
  proof (cases "vdr_Resolve c svc")
    case (Inl x)
    with assms TargetString show ?thesis by (auto simp: getServiceBlock_def)
  next
    case (Inr doc)
    with assms TargetString show ?thesis
      by (cases "LookupService P doc didCommServiceType") (auto simp: getServiceBlock_def)
  qed
next
  case (TargetService svc)
  with assms show ?thesis by (simp add: getServiceBlock_def)
next
  case (TargetMap m)
  show ?thesis
  proof (cases "mapstructure_NewDecoder P")
    case (Some x)
    with assms TargetMap show ?thesis by (auto simp: getServiceBlock_def)
  next
    case None
    with assms TargetMap show ?thesis
      by (cases "mapstructure_Decode P m") (auto simp: getServiceBlock_def)
  qed
next
  case (TargetOther x)
  with assms show ?thesis by (auto simp: getServiceBlock_def)
qed

lemma resolveVerKey_no_sentinel:
  assumes "resolveVerKey P c i = Inl (Err e)"
  shows "\<not> Is_errVerKeyNotFound e"
proof (cases "getServiceBlock P c i")
  case (Inl f)
  with assms show ?thesis
    by (cases f) (auto simp: resolveVerKey_def dest: getServiceBlock_no_sentinel)
next
  case (Inr svc)
  with assms show ?thesis
    by (cases "svc_RecipientKeys svc") (auto simp: resolveVerKey_def)
qed

lemma resolveVerKey_Inr_iff:
  "resolveVerKey P c i = Inr key \<longleftrightarrow>
     (\<exists>svc keys. getServiceBlock P c i = Inr svc \<and> svc_RecipientKeys svc = key # keys)"
  by (auto simp: resolveVerKey_def bind_f_Inr_iff wrapf_Inr_iff index0_Inr_iff)

text \<open>The fallback of \<open>getVerKey\<close>, as the code has it.\<close>

lemma getVerKey_found:
  assumes "GetOOBInvitation c invitationID = Inr invitation" and "oob_Type invitation = oobMsgType P"
  shows "getVerKey P c invitationID =
           (case resolveVerKey P c invitation of
              Inr key \<Rightarrow> Inr key
            | Inl (Panic q) \<Rightarrow> Inl (Panic q)
            | Inl (Err e) \<Rightarrow>
                Inl (Err (Errorf ''failed to get my verkey from oob invitation: ''
                           (Errorf ''failed to get my verkey: '' e))))"
proof (cases "resolveVerKey P c invitation")
  case (Inl f)
  show ?thesis
  proof (cases f)
    case (Err e)
    with Inl assms resolveVerKey_no_sentinel [of P c invitation e] show ?thesis
      by (simp add: getVerKey_def getVerKeyFromOOBInvitation_def)
  next
    case (Panic q)
    with Inl assms show ?thesis
      by (simp add: getVerKey_def getVerKeyFromOOBInvitation_def)
  qed
next
  case (Inr key)
  with assms show ?thesis
    by (simp add: getVerKey_def getVerKeyFromOOBInvitation_def)
qed

lemma getVerKey_fallback:
  assumes "oob_falls_back P c invitationID"
  shows "getVerKey P c invitationID =
           bind_f
             (if isDID invitationID
              then Inr (Invitation_zero\<lparr>inv_ID := invitationID, inv_DID := invitationID\<rparr>)
              else wrapf (''get invitation for signature [invitationID='' @ invitationID @ '']: '')
                     (ext (GetInvitation c invitationID)))
             (\<lambda>invitation. wrapf ''get invitation recipient key: ''
                              (getInvitationRecipientKey P c invitation))"
  using assms
  by (cases "GetOOBInvitation c invitationID")
    (simp_all add: oob_falls_back_def getVerKey_def getVerKeyFromOOBInvitation_def)

lemma getVerKey_other_error:
  assumes "GetOOBInvitation c invitationID = Inl e" and "\<not> is_ErrDataNotFound e"
  shows "getVerKey P c invitationID =
           Inl (Err (Errorf ''failed to get my verkey from oob invitation: ''
                      (Errorf ''failed to load oob invitation: '' (External e))))"
  using assms by (simp add: getVerKey_def getVerKeyFromOOBInvitation_def)

lemma getInvitationRecipientKey_Inr_iff:
  "getInvitationRecipientKey P c invitation = Inr key \<longleftrightarrow>
     (inv_DID invitation \<noteq> [] \<and>
        (\<exists>doc dest keys. vdr_Resolve c (inv_DID invitation) = Inr doc \<and>
           CreateDestination P doc = Inr dest \<and> dest_RecipientKeys dest = key # keys)) \<or>
     (inv_DID invitation = [] \<and> (\<exists>keys. inv_RecipientKeys invitation = key # keys))"
  by (auto simp: getInvitationRecipientKey_def recipientKey_def bind_f_Inr_iff wrapf_Inr_iff
      ext_Inr_iff index0_Inr_iff)

lemma fallback_invitation_iff:
  "fallback_invitation c invitationID invitation \<longleftrightarrow>
     (if isDID invitationID
      then invitation = Invitation_zero\<lparr>inv_ID := invitationID, inv_DID := invitationID\<rparr>
      else GetInvitation c invitationID = Inr invitation)"
  by (auto simp: fallback_invitation.simps isDID_take Invitation_zero_def)

lemma getVerKey_fallback_Inr_iff:
  assumes "oob_falls_back P c invitationID"
  shows "getVerKey P c invitationID = Inr key \<longleftrightarrow>
     (\<exists>invitation. fallback_invitation c invitationID invitation \<and>
        getInvitationRecipientKey P c invitation = Inr key)"
  by (auto simp: getVerKey_fallback [OF assms] fallback_invitation_iff bind_f_Inr_iff
      wrapf_Inr_iff ext_Inr_iff)

lemma getVerKey_spec_iff:
  "getVerKey_spec P c invitationID key \<longleftrightarrow>
     (\<exists>invitation svc keys. GetOOBInvitation c invitationID = Inr invitation \<and>
        oob_Type invitation = oobMsgType P \<and> getServiceBlock P c invitation = Inr svc \<and>
        svc_RecipientKeys svc = key # keys) \<or>
     (oob_falls_back P c invitationID \<and>
      (\<exists>invitation. fallback_invitation c invitationID invitation \<and>
         getInvitationRecipientKey P c invitation = Inr key))"
  unfolding getInvitationRecipientKey_Inr_iff
  by (subst getVerKey_spec.simps) blast

text \<open>
  C5. \<open>getVerKey\<close> returns a key exactly as the specified resolution order gives it:
  the first recipient key of the service block of the stored out-of-band invitation when
  the lookup succeeds and the type matches; on ``not found'' or a type mismatch, for the
  invitation \<open>{ID = id, DID = id}\<close> (an id that starts with \<open>did:\<close>) or the stored legacy
  invitation, the first recipient key of the destination of the resolved DID when the
  invitation has a DID and the invitation's first recipient key otherwise.  Any other
  error of the out-of-band lookup, and a failure to extract the service block, make
  \<open>getVerKey\<close> return an error.
\<close>

theorem getVerKey_resolution:
  "(getVerKey P c invitationID = Inr key \<longleftrightarrow> getVerKey_spec P c invitationID key) \<and>
   (\<forall>e. GetOOBInvitation c invitationID = Inl e \<longrightarrow> \<not> is_ErrDataNotFound e \<longrightarrow>
      getVerKey P c invitationID =
        Inl (Err (Errorf ''failed to get my verkey from oob invitation: ''
                   (Errorf ''failed to load oob invitation: '' (External e))))) \<and>
   (\<forall>invitation e. GetOOBInvitation c invitationID = Inr invitation \<longrightarrow>
      oob_Type invitation = oobMsgType P \<longrightarrow> getServiceBlock P c invitation = Inl (Err e) \<longrightarrow>
      (\<exists>e'. getVerKey P c invitationID = Inl (Err e')))"
proof (intro conjI allI impI)
  show "getVerKey P c invitationID = Inr key \<longleftrightarrow> getVerKey_spec P c invitationID key"
  proof (cases "oob_falls_back P c invitationID")
    case True
    then have "\<not> (\<exists>invitation. GetOOBInvitation c invitationID = Inr invitation \<and>
        oob_Type invitation = oobMsgType P)"
      by (auto simp: oob_falls_back_def)
    with True show ?thesis
      unfolding getVerKey_spec_iff getVerKey_fallback_Inr_iff [OF True] by blast
  next
    case False
    show ?thesis
    proof (cases "GetOOBInvitation c invitationID")
      case (Inl e)
      with False have "\<not> is_ErrDataNotFound e" by (simp add: oob_falls_back_def)
      with Inl False show ?thesis
        unfolding getVerKey_spec_iff by (simp add: getVerKey_other_error)
    next
      case (Inr invitation)
      with False have t: "oob_Type invitation = oobMsgType P" by (simp add: oob_falls_back_def)
      have "getVerKey P c invitationID = Inr key \<longleftrightarrow> resolveVerKey P c invitation = Inr key"
        unfolding getVerKey_found [OF Inr t]
        by (auto split: sum.splits failure.splits)
      with Inr t False show ?thesis
        unfolding getVerKey_spec_iff resolveVerKey_Inr_iff by simp
    qed
  qed
next
  fix e assume "GetOOBInvitation c invitationID = Inl e" "\<not> is_ErrDataNotFound e"
  then show "getVerKey P c invitationID =
        Inl (Err (Errorf ''failed to get my verkey from oob invitation: ''
                   (Errorf ''failed to load oob invitation: '' (External e))))"
    by (rule getVerKey_other_error)
next
  fix invitation e
  assume a: "GetOOBInvitation c invitationID = Inr invitation" "oob_Type invitation = oobMsgType P"
    "getServiceBlock P c invitation = Inl (Err e)"
  then show "\<exists>e'. getVerKey P c invitationID = Inl (Err e')"
    unfolding getVerKey_found [OF a(1,2)] by (simp add: resolveVerKey_def)
qed

lemma example_getVerKey_did:
  "getVerKey example_pkg example_ctx ''did:peer:abc'' = Inr ''did:key:K2''"
  by (simp add: getVerKey_def getVerKeyFromOOBInvitation_def example_ctx_def example_pkg_def
      isDID_def getInvitationRecipientKey_def not_found_def Invitation_zero_def recipientKey_def
      example_doc_def service_destination_def)

theorem getVerKey_resolution_witness:
  "getVerKey example_pkg example_ctx ''inv-1'' = Inr ''did:key:K1'' \<and>
   getVerKey_spec example_pkg example_ctx ''inv-1'' ''did:key:K1'' \<and>
   getVerKey example_pkg example_ctx ''did:peer:abc'' = Inr ''did:key:K2'' \<and>
   getVerKey_spec example_pkg example_ctx ''did:peer:abc'' ''did:key:K2''"
  using getVerKey_resolution [of example_pkg example_ctx "''inv-1''" "''did:key:K1''"]
    getVerKey_resolution [of example_pkg example_ctx "''did:peer:abc''" "''did:key:K2''"]
    example_getVerKey example_getVerKey_did
  by blast

subsection \<open>Message types a state rejects\<close>

lemma carries_nothing_handled:
  assumes "\<And>v. carries_nothing (k v)"
  shows "carries_nothing (handled pre x k)"
  using assms by (cases "(pre, x, k)" rule: handled.cases) (auto simp: carries_nothing_def)

lemma carries_nothing_simps:
  "carries_nothing (Inr (r, n, a, None))"
  "carries_nothing (Inr (None, None, None, e))"
  "carries_nothing (Inl q)"
  by (auto simp: carries_nothing_def)

lemma carries_nothing_ExecuteInbound: "carries_nothing (ExecuteInbound P c s msg thid)"
proof (cases s)
  case Requested
  then show ?thesis
    by (auto simp: requested_ExecuteInbound_def carries_nothing_simps split: prod.splits
        intro!: carries_nothing_handled)
next
  case Responded
  then show ?thesis
    by (auto simp: responded_ExecuteInbound_def carries_nothing_simps split: prod.splits
        intro!: carries_nothing_handled)
next
  case Completed
  then show ?thesis
    by (auto simp: completed_ExecuteInbound_def carries_nothing_simps Let_def
        split: prod.splits option.splits intro!: carries_nothing_handled)
qed (simp_all add: noOp_ExecuteInbound_def null_ExecuteInbound_def invited_ExecuteInbound_def
    abandoned_ExecuteInbound_def carries_nothing_simps)

text \<open>
  C6. When the type of the inbound message is none of the types that the state's
  \<open>ExecuteInbound\<close> has a case for, the method returns the error
  ``illegal msg type <type> for state <name>'' and no record, no next state and no
  action; for the Invited state and a message of type \<open>response\<close> the message is
  ``illegal msg type response for state invited''.  Every error return of every state
  carries no record, no next state and no action.
\<close>

theorem ExecuteInbound_illegal_msg_type:
  "(\<not> legal_msg_type P s (msg_Type msg) \<longrightarrow>
      ExecuteInbound P c s msg thid =
        Inr (None, None, None, Some (illegal_msg_type (msg_Type msg) s)) \<and>
      Error_msg (illegal_msg_type (msg_Type msg) s) =
        ''illegal msg type '' @ msg_Type msg @ '' for state '' @ Name s) \<and>
   (\<forall>r n a e. ExecuteInbound P c s msg thid = Inr (r, n, a, Some e) \<longrightarrow>
      r = None \<and> n = None \<and> a = None)"
proof -
  have "\<not> legal_msg_type P s (msg_Type msg) \<longrightarrow>
      ExecuteInbound P c s msg thid =
        Inr (None, None, None, Some (illegal_msg_type (msg_Type msg) s))"
    by (cases s)
      (simp_all add: invited_ExecuteInbound_def requested_ExecuteInbound_def
        responded_ExecuteInbound_def completed_ExecuteInbound_def)
  moreover have "Error_msg (illegal_msg_type (msg_Type msg) s) =
        ''illegal msg type '' @ msg_Type msg @ '' for state '' @ Name s"
    by (simp add: illegal_msg_type_def)
  moreover have "\<forall>r n a e. ExecuteInbound P c s msg thid = Inr (r, n, a, Some e) \<longrightarrow>
      r = None \<and> n = None \<and> a = None"
    using carries_nothing_ExecuteInbound [of P c s msg thid]
    unfolding carries_nothing_def by blast
  ultimately show ?thesis by blast
qed

theorem ExecuteInbound_illegal_msg_type_witness:
  "\<not> legal_msg_type example_pkg Invited (msg_Type (example_msg ''response'')) \<and>
   ExecuteInbound example_pkg example_ctx Invited (example_msg ''response'') ''t-1'' =
     Inr (None, None, None, Some (illegal_msg_type ''response'' Invited)) \<and>
   Error_msg (illegal_msg_type ''response'' Invited) = ''illegal msg type response for state invited''"
proof -
  have l: "\<not> legal_msg_type example_pkg Invited (msg_Type (example_msg ''response''))"
    by (simp add: example_pkg_def example_msg_def)
  have t: "msg_Type (example_msg ''response'') = ''response''"
    by (simp add: example_msg_def)
  show ?thesis
    using ExecuteInbound_illegal_msg_type
      [of example_pkg Invited "example_msg ''response''" example_ctx "''t-1''"] l
    by (simp add: t state_names)
qed

subsection \<open>Actions\<close>

lemma dispatches_le: "length (dispatches act) \<le> 1"
  by (cases act) simp_all

lemma has_action_handled:
  assumes "\<And>v. has_action (k v)"
  shows "has_action (handled pre x k)"
  using assms by (cases "(pre, x, k)" rule: handled.cases) (auto simp: has_action_def)

lemma has_action_simps:
  "has_action (Inr (r, n, Some act, e))"
  "has_action (Inr (r, n, a, Some e'))"
  "has_action (Inl q)"
  using dispatches_le [of act] by (auto simp: has_action_def)

lemma ExecuteInbound_action_present:
  assumes "s \<noteq> Null"
  shows "has_action (ExecuteInbound P c s msg thid)"
proof (cases s)
  case Requested
  then show ?thesis
    by (auto simp: requested_ExecuteInbound_def has_action_simps split: prod.splits
        intro!: has_action_handled)
next
  case Responded
  then show ?thesis
    by (auto simp: responded_ExecuteInbound_def has_action_simps split: prod.splits
        intro!: has_action_handled)
next
  case Completed
  then show ?thesis
    by (auto simp: completed_ExecuteInbound_def has_action_simps Let_def
        split: prod.splits option.splits intro!: has_action_handled)
qed (use assms in \<open>simp_all add: noOp_ExecuteInbound_def invited_ExecuteInbound_def
    abandoned_ExecuteInbound_def has_action_simps\<close>)

text \<open>
  C7. The Null state returns no action at all: its \<open>ExecuteInbound\<close> returns \<open>nil\<close> where
  every other state returns a callable action.  The successful \<open>ExecuteInbound\<close> of every
  state but Null returns an action, and calling it dispatches at most one message.
\<close>

theorem ExecuteInbound_actions:
  "ExecuteInbound P c Null msg thid = Inr (Some Record_zero, Some NoOp, None, None) \<and>
   (s \<noteq> Null \<longrightarrow>
      (\<forall>r n a. ExecuteInbound P c s msg' thid' = Inr (r, n, a, None) \<longrightarrow>
         (\<exists>act. a = Some act \<and> length (dispatches act) \<le> 1)))"
  using ExecuteInbound_action_present [of s P c msg' thid']
  by (auto simp: null_ExecuteInbound_def has_action_def)

theorem ExecuteInbound_actions_witness:
  "ExecuteInbound example_pkg example_ctx Null (example_msg ''invitation'') ''t-1'' =
     Inr (Some Record_zero, Some NoOp, None, None) \<and>
   ExecuteInbound example_pkg example_ctx Invited (example_msg ''invitation'') ''t-1'' =
     Inr (Some Record_zero, Some Requested, Some ReturnNil, None) \<and>
   length (dispatches ReturnNil) \<le> 1"
  using ExecuteInbound_actions [of example_pkg example_ctx "example_msg ''invitation''" "''t-1''"
      Invited "example_msg ''invitation''" "''t-1''"]
  by (simp add: invited_ExecuteInbound_def example_msg_def example_pkg_def)

subsection \<open>A request without a thread decorator\<close>

lemma prepareResponse_nil_Thread:
  assumes "\<not> doACAPyInterop c" and "req_Thread request = None"
  shows "prepareResponse P c request doc conn = Inl (Panic NilDereference)"
  using assms by (simp add: prepareResponse_def Let_def)

lemma prepareResponse_Some_Thread:
  assumes "\<not> doACAPyInterop c" and "req_Thread request = Some thread"
  shows "prepareResponse P c request doc conn =
     bind_f (wrapf ''connection signature: ''
               (prepareConnectionSignature P c conn (thr_PID thread)))
       (\<lambda>encodedConnectionSignature.
          Inr \<lparr>resp_Type = ResponseMsgType P, resp_ID = uuid_New c,
               resp_Thread = Some \<lparr>thr_ID = req_ID request, thr_PID = thr_PID thread\<rparr>,
               resp_ConnectionSignature = Some encodedConnectionSignature, resp_DID = [],
               resp_DocAttach = None\<rparr>)"
  using assms by (simp add: prepareResponse_def Let_def)

lemma handleInboundRequest_nil_Thread:
  assumes "\<not> doACAPyInterop c" and "req_Thread request = None"
    and "getRequestConnection P request = Inr requestConnection"
    and "resolveDidDocFromConnection P c requestConnection = Inr requestDidDoc"
    and "getDIDDocAndConnection P c (getPublicDID opts) (getRouterConnections opts) =
           Inr (responseDidDoc, responseConnection)"
    and "recipientKey P responseDidDoc = Inr senderVerKey"
  shows "handleInboundRequest P c request opts connRec = Inl (Panic NilDereference)"
  using assms by (simp add: handleInboundRequest_def prepareResponse_nil_Thread)

text \<open>
  C10. Outside the interop path, \<open>prepareResponse\<close> copies the parent thread id under the
  guard \<open>request.Thread != nil\<close> and then reads \<open>request.Thread.PID\<close> without it: for a
  request whose \<open>Thread\<close> is \<open>nil\<close> it panics with a nil dereference, and so does
  \<open>handleInboundRequest\<close> once the steps before \<open>prepareResponse\<close> have succeeded; whenever
  \<open>prepareResponse\<close> returns, with a response or with an error, the request has a thread.
\<close>

theorem nil_Thread_panics:
  assumes "\<not> doACAPyInterop c"
  shows
    "(req_Thread request = None \<longrightarrow>
        prepareResponse P c request doc conn = Inl (Panic NilDereference) \<and>
        (\<forall>requestConnection requestDidDoc responseDidDoc responseConnection senderVerKey.
           getRequestConnection P request = Inr requestConnection \<longrightarrow>
           resolveDidDocFromConnection P c requestConnection = Inr requestDidDoc \<longrightarrow>
           getDIDDocAndConnection P c (getPublicDID opts) (getRouterConnections opts) =
             Inr (responseDidDoc, responseConnection) \<longrightarrow>
           recipientKey P responseDidDoc = Inr senderVerKey \<longrightarrow>
           handleInboundRequest P c request opts connRec = Inl (Panic NilDereference))) \<and>
     (\<forall>response. prepareResponse P c request doc conn = Inr response \<longrightarrow>
        (\<exists>thread. req_Thread request = Some thread \<and>
           resp_Thread response = Some \<lparr>thr_ID = req_ID request, thr_PID = thr_PID thread\<rparr>)) \<and>
     (\<forall>e. prepareResponse P c request doc conn = Inl (Err e) \<longrightarrow> req_Thread request \<noteq> None)"
proof (intro conjI allI impI)
  assume "req_Thread request = None"
  with assms show "prepareResponse P c request doc conn = Inl (Panic NilDereference)"
    by (rule prepareResponse_nil_Thread)
next
  fix requestConnection requestDidDoc responseDidDoc responseConnection senderVerKey
  assume "req_Thread request = None"
    "getRequestConnection P request = Inr requestConnection"
    "resolveDidDocFromConnection P c requestConnection = Inr requestDidDoc"
    "getDIDDocAndConnection P c (getPublicDID opts) (getRouterConnections opts) =
       Inr (responseDidDoc, responseConnection)"
    "recipientKey P responseDidDoc = Inr senderVerKey"
  with assms show "handleInboundRequest P c request opts connRec = Inl (Panic NilDereference)"
    by (rule handleInboundRequest_nil_Thread)
next
  fix response
  assume r: "prepareResponse P c request doc conn = Inr response"
  show "\<exists>thread. req_Thread request = Some thread \<and>
           resp_Thread response = Some \<lparr>thr_ID = req_ID request, thr_PID = thr_PID thread\<rparr>"
  proof (cases "req_Thread request")
    case None
    with assms r show ?thesis by (simp add: prepareResponse_nil_Thread)
  next
    case (Some thread)
    with r show ?thesis
      by (auto simp: prepareResponse_Some_Thread [OF assms Some] bind_f_Inr_iff)
  qed
next
  fix e
  assume "prepareResponse P c request doc conn = Inl (Err e)"
  with assms show "req_Thread request \<noteq> None"
    by (cases "req_Thread request") (simp_all add: prepareResponse_nil_Thread)
qed

theorem nil_Thread_panics_witness:
  "\<not> doACAPyInterop example_ctx \<and> req_Thread example_request = None \<and>
   prepareResponse example_pkg example_ctx example_request (example_doc ''did:peer:pub'')
     \<lparr>conn_DID = ''did:peer:pub'', conn_DIDDoc = None\<rparr> = Inl (Panic NilDereference) \<and>
   handleInboundRequest example_pkg example_ctx example_request (Some example_options)
     (Some Record_zero) = Inl (Panic NilDereference)"
proof -
  have i: "\<not> doACAPyInterop example_ctx"
    by (simp add: example_ctx_def)
  have t: "req_Thread example_request = None"
    by (simp add: example_request_def)
  have 1: "getRequestConnection example_pkg example_request = Inr example_conn"
    by (simp add: example_pkg_def example_request_def)
  have 2: "resolveDidDocFromConnection example_pkg example_ctx example_conn =
      Inr (example_doc ''did:peer:abc'')"
    by (simp add: resolveDidDocFromConnection_def example_conn_def example_ctx_def)
  have 3: "getDIDDocAndConnection example_pkg example_ctx (getPublicDID (Some example_options))
      (getRouterConnections (Some example_options)) =
      Inr (example_doc ''did:peer:pub'', \<lparr>conn_DID = ''did:peer:pub'', conn_DIDDoc = None\<rparr>)"
    by (simp add: getDIDDocAndConnection_def getPublicDID_def example_options_def example_ctx_def
        example_doc_def)
  have 4: "recipientKey example_pkg (example_doc ''did:peer:pub'') = Inr ''did:key:K2''"
    by (simp add: recipientKey_def example_pkg_def example_doc_def service_destination_def)
  show ?thesis
    using nil_Thread_panics [OF i, of example_request example_pkg "example_doc ''did:peer:pub''"
        "\<lparr>conn_DID = ''did:peer:pub'', conn_DIDDoc = None\<rparr>" "Some example_options"
        "Some Record_zero"] i t 1 2 3 4
    by blast
qed

end
